theory Spec2Isabelle
  imports Complex_Main "HOL-Library.Char_ord" "HOL-Library.List_Lexorder" "HOL-Library.AList"
begin

section \<open>Python values used by the dashboard\<close>

text \<open>
  The exceptions the modelled code can raise. \<open>KeyError\<close> carries the missing key,
  as pandas reports the missing column.
\<close>

datatype error = KeyError string | TypeError | ValueError | RequestException string | Exception string

text \<open>Sequencing of fallible steps: the first raise aborts the rest.\<close>

definition ebind :: "error + 'a \<Rightarrow> ('a \<Rightarrow> error + 'b) \<Rightarrow> error + 'b" where
  "ebind m f = (case m of Inl e \<Rightarrow> Inl e | Inr x \<Rightarrow> f x)"

fun traverse :: "('a \<Rightarrow> error + 'b) \<Rightarrow> 'a list \<Rightarrow> error + 'b list" where
  "traverse f [] = Inr []"
| "traverse f (x # xs) = ebind (f x) (\<lambda>y. ebind (traverse f xs) (\<lambda>ys. Inr (y # ys)))"

subsection \<open>Strings\<close>

text \<open>
  A Python \<open>str\<close> is modelled as a \<open>string\<close> whose characters are the code points
  below 256 (the Latin-1 range, which holds every list name the code compares with).
  \<open>isspace\<close>, \<open>strip\<close> and \<open>lower\<close> are \<open>str.isspace\<close>, \<open>str.strip()\<close> and
  \<open>str.lower()\<close> on that range.
\<close>

definition isspace :: "char \<Rightarrow> bool" where
  "isspace c = (let n = (of_char c :: nat) in
     (9 \<le> n \<and> n \<le> 13) \<or> (28 \<le> n \<and> n \<le> 32) \<or> n = 133 \<or> n = 160)"

definition strip :: "string \<Rightarrow> string" where
  "strip s = rev (dropWhile isspace (rev (dropWhile isspace s)))"

definition lower_char :: "char \<Rightarrow> char" where
  "lower_char c = (let n = (of_char c :: nat) in
     if (65 \<le> n \<and> n \<le> 90) \<or> (192 \<le> n \<and> n \<le> 222 \<and> n \<noteq> 215)
     then char_of (n + 32) else c)"

definition lower :: "string \<Rightarrow> string" where
  "lower s = map lower_char s"

text \<open>
  The literals of the source: the done list (with i-acute, code point 0xED), the
  in-progress list, and the sentinels (c-cedilla 0xE7, a-tilde 0xE3).
\<close>

definition concluido :: string where
  "concluido = ''conclu'' @ [CHR 0xED] @ ''do''"

definition fazendo :: string where
  "fazendo = ''fazendo''"

definition Desconhecida :: string where
  "Desconhecida = ''Desconhecida''"

definition Desconhecido :: string where
  "Desconhecido = ''Desconhecido''"

definition Sem_atribuicao :: string where
  "Sem_atribuicao = ''Sem atribui'' @ [CHR 0xE7, CHR 0xE3] @ ''o''"

definition Sem_label :: string where
  "Sem_label = ''Sem label''"

text \<open>\<open>s.replace('Z', '+00:00')\<close>.\<close>

definition replace_Z :: "string \<Rightarrow> string" where
  "replace_Z s = concat (map (\<lambda>c. if c = CHR ''Z'' then ''+00:00'' else [c]) s)"

text \<open>
  The truthiness test \<open>card.get(k)\<close> on an optional string field: a missing key,
  \<open>None\<close> and the empty string are all falsy.
\<close>

definition truthy :: "string option \<Rightarrow> string option" where
  "truthy v = (case v of None \<Rightarrow> None | Some s \<Rightarrow> if s = [] then None else Some s)"

text \<open>
  A dict comprehension \<open>{k: v for ...}\<close>: a later pair replaces an earlier one with
  the same key. \<open>dict_get d k default\<close> is \<open>d.get(k, default)\<close>.
\<close>

definition dict_of :: "('k \<times> 'v) list \<Rightarrow> ('k \<rightharpoonup> 'v)" where
  "dict_of kvs = map_of (rev kvs)"

definition dict_get :: "('k \<rightharpoonup> 'v) \<Rightarrow> 'k \<Rightarrow> 'v \<Rightarrow> 'v" where
  "dict_get d k dflt = (case d k of None \<Rightarrow> dflt | Some v \<Rightarrow> v)"

subsection \<open>Datetimes\<close>

text \<open>
  A \<open>datetime\<close> is its wall-clock reading, in microseconds since 1970-01-01T00:00:00
  of its own clock, and its \<open>tzinfo\<close>: \<open>None\<close> for a naive value, the UTC offset in
  microseconds for an aware one (fixed offsets only, as \<open>fromisoformat\<close> and
  \<open>pytz.UTC\<close> produce). A calendar date is the number of its day since 1970-01-01.
  The bounded range of Python's and pandas' timestamps is not modelled.
\<close>

record datetime =
  wall :: int
  utcoffset :: "int option"

definition day_us :: int where
  "day_us = 86400000000"

definition date_of :: "datetime \<Rightarrow> int" where
  "date_of d = wall d div day_us"

text \<open>
  Ordering two datetimes: both naive compares the wall clocks, both aware compares
  the instants, one of each raises \<open>TypeError\<close>.
\<close>

definition dt_le :: "datetime \<Rightarrow> datetime \<Rightarrow> error + bool" where
  "dt_le a b = (case (utcoffset a, utcoffset b) of
      (None, None) \<Rightarrow> Inr (wall a \<le> wall b)
    | (Some oa, Some ob) \<Rightarrow> Inr (wall a - oa \<le> wall b - ob)
    | _ \<Rightarrow> Inl TypeError)"

text \<open>
  \<open>(a - b).total_seconds() / 86400\<close>, as an exact rational (the source computes
  it in floating point); subtracting a naive from an aware value raises.
\<close>

definition days_between :: "datetime \<Rightarrow> datetime \<Rightarrow> error + rat" where
  "days_between a b = (case (utcoffset a, utcoffset b) of
      (None, None) \<Rightarrow> Inr (of_int (wall a - wall b) / of_int day_us)
    | (Some oa, Some ob) \<Rightarrow> Inr (of_int ((wall a - oa) - (wall b - ob)) / of_int day_us)
    | _ \<Rightarrow> Inl TypeError)"

text \<open>\<open>pytz.UTC.localize\<close>, applied by the source only when \<open>tzinfo is None\<close>.\<close>

definition localize_if_naive :: "datetime \<Rightarrow> datetime" where
  "localize_if_naive d = (case utcoffset d of None \<Rightarrow> d\<lparr>utcoffset := Some 0\<rparr> | Some _ \<Rightarrow> d)"

text \<open>
  \<open>datetime.fromisoformat(s.replace('Z', '+00:00'))\<close>. The parser itself is a
  parameter \<open>fromiso\<close> of the model (its accepted formats differ between Python
  versions); \<open>Inl ValueError\<close> is its raise.
\<close>

type_synonym isoparser = "string \<Rightarrow> error + datetime"

definition parse_date :: "isoparser \<Rightarrow> string \<Rightarrow> error + datetime" where
  "parse_date fromiso s = fromiso (replace_Z s)"

text \<open>
  \<open>trello_fromisoformat\<close> is \<open>datetime.fromisoformat\<close> on the shape of the
  timestamps the Trello API emits, \<open>YYYY-MM-DDTHH:MM:SS.mmm\<close> with an optional
  \<open>+HH:MM\<close> or \<open>-HH:MM\<close>. It instantiates \<open>fromiso\<close> when the model is run on a
  concrete board; the theorems hold for every parser.
\<close>

definition digit :: "char \<Rightarrow> nat option" where
  "digit c = (let n = (of_char c :: nat) in if 48 \<le> n \<and> n \<le> 57 then Some (n - 48) else None)"

definition digits :: "string \<Rightarrow> nat option" where
  "digits s = foldl (\<lambda>acc c. case (acc, digit c) of (Some a, Some d) \<Rightarrow> Some (10 * a + d) | _ \<Rightarrow> None)
                (Some 0) s"

definition days_in_month :: "nat \<Rightarrow> nat \<Rightarrow> nat" where
  "days_in_month y m =
     (if m = 2 then (if y mod 4 = 0 \<and> (y mod 100 \<noteq> 0 \<or> y mod 400 = 0) then 29 else 28)
      else if m = 4 \<or> m = 6 \<or> m = 9 \<or> m = 11 then 30 else 31)"

text \<open>The day number of a proleptic Gregorian date, 1970-01-01 being day 0.\<close>

definition days_from_civil :: "int \<Rightarrow> int \<Rightarrow> int \<Rightarrow> int" where
  "days_from_civil y m d =
     (let y' = (if m \<le> 2 then y - 1 else y);
          era = y' div 400;
          yoe = y' - era * 400;
          doy = (153 * (if 2 < m then m - 3 else m + 9) + 2) div 5 + d - 1;
          doe = yoe * 365 + yoe div 4 - yoe div 100 + doy
      in era * 146097 + doe - 719468)"

definition parse_offset :: "string \<Rightarrow> int option" where
  "parse_offset s =
     (if length s = 6 \<and> (s ! 0 = CHR ''+'' \<or> s ! 0 = CHR ''-'') \<and> s ! 3 = CHR '':''
      then (case (digits (take 2 (drop 1 s)), digits (take 2 (drop 4 s))) of
              (Some h, Some m) \<Rightarrow>
                if h < 24 \<and> m < 60
                then Some ((if s ! 0 = CHR ''-'' then - 1 else 1) * (int h * 60 + int m) * 60000000)
                else None
            | _ \<Rightarrow> None)
      else None)"

definition trello_fromisoformat :: isoparser where
  "trello_fromisoformat s =
     (if (length s = 23 \<or> length s = 29) \<and> s ! 4 = CHR ''-'' \<and> s ! 7 = CHR ''-'' \<and>
         s ! 10 = CHR ''T'' \<and> s ! 13 = CHR '':'' \<and> s ! 16 = CHR '':'' \<and> s ! 19 = CHR ''.''
      then (case (digits (take 4 s), digits (take 2 (drop 5 s)), digits (take 2 (drop 8 s)),
                  digits (take 2 (drop 11 s)), digits (take 2 (drop 14 s)),
                  digits (take 2 (drop 17 s)), digits (take 3 (drop 20 s))) of
              (Some y, Some mo, Some d, Some h, Some mi, Some sec, Some ms) \<Rightarrow>
                if 1 \<le> y \<and> 1 \<le> mo \<and> mo \<le> 12 \<and> 1 \<le> d \<and> d \<le> days_in_month y mo \<and>
                   h < 24 \<and> mi < 60 \<and> sec < 60
                then (let w = (((days_from_civil (int y) (int mo) (int d) * 24 + int h) * 60
                                 + int mi) * 60 + int sec) * 1000000 + int ms * 1000 in
                      if length s = 23 then Inr \<lparr>wall = w, utcoffset = None\<rparr>
                      else (case parse_offset (drop 23 s) of
                              None \<Rightarrow> Inl ValueError
                            | Some off \<Rightarrow> Inr \<lparr>wall = w, utcoffset = Some off\<rparr>))
                else Inl ValueError
            | _ \<Rightarrow> Inl ValueError)
      else Inl ValueError)"

text \<open>
  \<open>clock_at t\<close> is \<open>datetime.now\<close> at the UTC instant \<open>t\<close> on a machine whose
  local zone is UTC: the wall clock of the requested zone.
\<close>

definition clock_at :: "int \<Rightarrow> int option \<Rightarrow> int" where
  "clock_at t tz = (case tz of None \<Rightarrow> t | Some off \<Rightarrow> t + off)"

section \<open>The board export\<close>

text \<open>
  The JSON of the Trello API, typed by the keys the source reads. Keys read with
  \<open>d[k]\<close> are fields; keys read with \<open>d.get(k)\<close> are optional.
  \<open>list_after\<close> is \<open>action['data']['listAfter']['name']\<close> when \<open>data\<close> has a
  \<open>listAfter\<close>; \<open>c_labels\<close> holds \<open>label.get('name')\<close> of every label.
\<close>

record action =
  atype :: string
  adate :: string
  list_after :: "string option"

record card =
  c_id :: string
  c_name :: string
  closed :: bool
  idList :: "string option"
  actions :: "action list"
  dateLastActivity :: "string option"
  due :: "string option"
  dueComplete :: bool
  idMembers :: "string list"
  c_labels :: "string option list"

record trello_data =
  td_board :: string
  td_lists :: "(string \<times> string) list"
  td_members :: "(string \<times> string) list"
  td_cards :: "card list"
  td_labels :: "string list"

section \<open>DataProcessor: the derived table of cards\<close>

record derived_card =
  row_id :: string
  row_name :: string
  list_name :: string
  created_date :: "datetime option"
  completed_date :: "datetime option"
  due_date :: "datetime option"
  is_overdue :: bool
  is_closed :: bool
  members :: "string list"
  member_count :: nat
  labels :: "string list"
  label_count :: nat
  completion_time_days :: "rat option"

text \<open>
  A pandas \<open>DataFrame\<close> built from a list of row dicts: it has the rows' columns
  only when there is at least one row (\<open>pd.DataFrame([])\<close> has no columns), and
  selecting rows keeps the columns. \<open>column\<close> is \<open>df[name]\<close>.
\<close>

record 'r dataframe =
  has_columns :: bool
  rows :: "'r list"

definition pd_DataFrame :: "'r list \<Rightarrow> 'r dataframe" where
  "pd_DataFrame rs = \<lparr>has_columns = (rs \<noteq> []), rows = rs\<rparr>"

definition column :: "string \<Rightarrow> ('r \<Rightarrow> 'a) \<Rightarrow> 'r dataframe \<Rightarrow> error + 'a list" where
  "column name f df = (if has_columns df then Inr (map f (rows df)) else Inl (KeyError name))"

definition select_rows :: "bool list \<Rightarrow> 'r dataframe \<Rightarrow> 'r dataframe" where
  "select_rows msk df = df\<lparr>rows := map snd (filter fst (zip msk (rows df)))\<rparr>"

text \<open>The two scans of \<open>_create_cards_dataframe\<close> over the actions sorted by date.\<close>

definition is_move_to_done :: "action \<Rightarrow> bool" where
  "is_move_to_done a = (atype a = ''updateCard'' \<and>
     (case list_after a of None \<Rightarrow> False | Some n \<Rightarrow> lower (strip n) = concluido))"

definition creation_action :: "action list \<Rightarrow> action option" where
  "creation_action acts =
     (if acts \<noteq> [] then find (\<lambda>a. atype a = ''createCard'') (sort_key adate acts) else None)"

definition done_action :: "action list \<Rightarrow> action option" where
  "done_action acts =
     (if acts \<noteq> [] then find is_move_to_done (rev (sort_key adate acts)) else None)"

text \<open>An optional date string, parsed when present.\<close>

definition parse_opt :: "isoparser \<Rightarrow> string option \<Rightarrow> error + datetime option" where
  "parse_opt fromiso v = (case v of None \<Rightarrow> Inr None
     | Some s \<Rightarrow> ebind (parse_date fromiso s) (\<lambda>d. Inr (Some d)))"

text \<open>
  One iteration of the loop of \<open>_create_cards_dataframe\<close>, for a card that is not
  closed. \<open>now tz\<close> is the wall clock of \<open>datetime.now(tz)\<close>.
\<close>

definition derive_card ::
  "isoparser \<Rightarrow> (int option \<Rightarrow> int) \<Rightarrow> (string \<rightharpoonup> string) \<Rightarrow> (string \<rightharpoonup> string) \<Rightarrow> card
     \<Rightarrow> error + derived_card" where
  "derive_card fromiso now lists_dict members_dict c =
    (let lname = (case idList c of None \<Rightarrow> Desconhecida
                  | Some i \<Rightarrow> dict_get lists_dict i Desconhecida) in
     ebind (parse_opt fromiso (map_option adate (creation_action (actions c)))) (\<lambda>created0.
     ebind (case created0 of Some d \<Rightarrow> Inr (Some d)
            | None \<Rightarrow> parse_opt fromiso (truthy (dateLastActivity c))) (\<lambda>created.
     ebind (if lower (strip lname) = concluido
            then ebind (parse_opt fromiso (map_option adate (done_action (actions c))))
                   (\<lambda>completed0. case completed0 of Some d \<Rightarrow> Inr (Some d)
                      | None \<Rightarrow> parse_opt fromiso (truthy (dateLastActivity c)))
            else Inr None) (\<lambda>completed.
     ebind (parse_opt fromiso (truthy (due c))) (\<lambda>due_d.
     let overdue = (case due_d of None \<Rightarrow> False
                    | Some d \<Rightarrow> \<not> dueComplete c \<and> wall d < now (utcoffset d));
         member_names = map (\<lambda>mid. dict_get members_dict mid Desconhecido) (idMembers c);
         label_names = map the (filter (\<lambda>l. truthy l \<noteq> None) (c_labels c)) in
     ebind (case (created, completed) of
              (Some cr, Some co) \<Rightarrow> ebind (days_between co cr) (\<lambda>q. Inr (Some q))
            | _ \<Rightarrow> Inr None) (\<lambda>ctd.
     Inr \<lparr>row_id = c_id c, row_name = c_name c, list_name = lname,
          created_date = created, completed_date = completed, due_date = due_d,
          is_overdue = overdue, is_closed = closed c,
          members = member_names, member_count = length member_names,
          labels = label_names, label_count = length label_names,
          completion_time_days = ctd\<rparr>))))))"

definition create_cards_dataframe ::
  "isoparser \<Rightarrow> (int option \<Rightarrow> int) \<Rightarrow> (string \<rightharpoonup> string) \<Rightarrow> (string \<rightharpoonup> string) \<Rightarrow> card list
     \<Rightarrow> error + derived_card dataframe" where
  "create_cards_dataframe fromiso now lists_dict members_dict cs =
     ebind (traverse (derive_card fromiso now lists_dict members_dict)
              (filter (\<lambda>c. \<not> closed c) cs))
       (\<lambda>rs. Inr (pd_DataFrame rs))"

text \<open>\<open>DataProcessor.__init__\<close>.\<close>

record data_processor =
  self_board :: string
  self_lists :: "(string \<times> string) list"
  self_members :: "(string \<times> string) list"
  self_cards :: "card list"
  self_labels :: "string list"
  lists_dict :: "string \<rightharpoonup> string"
  members_dict :: "string \<rightharpoonup> string"
  df_cards :: "derived_card dataframe"

definition DataProcessor ::
  "isoparser \<Rightarrow> (int option \<Rightarrow> int) \<Rightarrow> trello_data \<Rightarrow> error + data_processor" where
  "DataProcessor fromiso now td =
     (let ld = dict_of (td_lists td); md = dict_of (td_members td) in
      ebind (create_cards_dataframe fromiso now ld md (td_cards td)) (\<lambda>df.
      Inr \<lparr>self_board = td_board td, self_lists = td_lists td, self_members = td_members td,
           self_cards = td_cards td, self_labels = td_labels td,
           lists_dict = ld, members_dict = md, df_cards = df\<rparr>))"

section \<open>DataProcessor: the metrics\<close>

text \<open>
  The mask \<open>(col >= start) & (col <= end)\<close> over a column of optional datetimes:
  a missing value compares false, a value of the other timezone awareness raises.
\<close>

definition in_range_mask :: "datetime option list \<Rightarrow> datetime \<Rightarrow> datetime \<Rightarrow> error + bool list" where
  "in_range_mask col s e =
     ebind (traverse (\<lambda>v. case v of None \<Rightarrow> Inr False | Some d \<Rightarrow> dt_le s d) col) (\<lambda>ge.
     ebind (traverse (\<lambda>v. case v of None \<Rightarrow> Inr False | Some d \<Rightarrow> dt_le d e) col) (\<lambda>le.
     Inr (map (\<lambda>(a, b). a \<and> b) (zip ge le))))"

definition filter_by_date_range ::
  "data_processor \<Rightarrow> datetime \<Rightarrow> datetime \<Rightarrow> error + derived_card dataframe" where
  "filter_by_date_range p start_date end_date =
     (let df = df_cards p;
          s = localize_if_naive start_date;
          e = localize_if_naive end_date in
      ebind (column ''created_date'' created_date df) (\<lambda>col.
      ebind (in_range_mask col s e) (\<lambda>msk.
      Inr (select_rows msk df))))"

definition get_cards_created_count :: "data_processor \<Rightarrow> datetime \<Rightarrow> datetime \<Rightarrow> error + nat" where
  "get_cards_created_count p start_date end_date =
     ebind (filter_by_date_range p start_date end_date) (\<lambda>df_filtered.
     Inr (length (rows df_filtered)))"

definition get_cards_completed_count :: "data_processor \<Rightarrow> datetime \<Rightarrow> datetime \<Rightarrow> error + nat" where
  "get_cards_completed_count p start_date end_date =
     (let df = df_cards p;
          s = localize_if_naive start_date;
          e = localize_if_naive end_date in
      ebind (column ''completed_date'' completed_date df) (\<lambda>col.
      ebind (in_range_mask col s e) (\<lambda>msk.
      Inr (length (rows (select_rows msk df))))))"

definition get_cards_in_progress_count :: "data_processor \<Rightarrow> error + nat" where
  "get_cards_in_progress_count p =
     (let df = df_cards p in
      ebind (column ''list'' list_name df) (\<lambda>col.
      Inr (length (rows (select_rows (map (\<lambda>n. lower (strip n) = fazendo) col) df)))))"

text \<open>
  \<open>sort_values('due_date')\<close>: ascending, missing values last; a column holding both
  naive and aware values cannot be ordered. pandas' default sort is not stable, so the
  order among equal keys is the model's choice, here and in the other sorts.
\<close>

definition instant :: "datetime \<Rightarrow> int" where
  "instant d = (case utcoffset d of None \<Rightarrow> wall d | Some off \<Rightarrow> wall d - off)"

definition sort_values_due_date :: "derived_card list \<Rightarrow> error + derived_card list" where
  "sort_values_due_date rs =
     (let present = filter (\<lambda>r. due_date r \<noteq> None) rs;
          absent = filter (\<lambda>r. due_date r = None) rs in
      if (\<exists>r \<in> set present. utcoffset (the (due_date r)) = None) \<and>
         (\<exists>r \<in> set present. utcoffset (the (due_date r)) \<noteq> None)
      then Inl TypeError
      else Inr (sort_key (\<lambda>r. instant (the (due_date r))) present @ absent))"

definition get_overdue_cards :: "data_processor \<Rightarrow> error + derived_card list" where
  "get_overdue_cards p =
     (let df = df_cards p in
      ebind (column ''is_overdue'' is_overdue df) (\<lambda>col.
      sort_values_due_date (rows (select_rows col df))))"

record member_row =
  mr_member :: string
  mr_created :: nat
  mr_completed :: nat

definition explode_members :: "derived_card \<Rightarrow> member_row list" where
  "explode_members row =
     (let done = (if completed_date row \<noteq> None then 1 else 0) in
      if members row \<noteq> []
      then map (\<lambda>m. \<lparr>mr_member = m, mr_created = 1, mr_completed = done\<rparr>) (members row)
      else [\<lparr>mr_member = Sem_atribuicao, mr_created = 1, mr_completed = done\<rparr>])"

text \<open>\<open>groupby('member').sum().reset_index()\<close>: one row per member, keys ascending.\<close>

definition groupby_member_sum :: "member_row list \<Rightarrow> member_row list" where
  "groupby_member_sum xs =
     map (\<lambda>k. \<lparr>mr_member = k,
                mr_created = sum_list (map mr_created (filter (\<lambda>r. mr_member r = k) xs)),
                mr_completed = sum_list (map mr_completed (filter (\<lambda>r. mr_member r = k) xs))\<rparr>)
         (sort (remdups (map mr_member xs)))"

definition get_cards_by_member ::
  "data_processor \<Rightarrow> datetime \<Rightarrow> datetime \<Rightarrow> error + member_row list" where
  "get_cards_by_member p start_date end_date =
     ebind (filter_by_date_range p start_date end_date) (\<lambda>df_filtered.
     let member_cards = concat (map explode_members (rows df_filtered)) in
     if member_cards = [] then Inr []
     else Inr (sort_key (\<lambda>r. - int (mr_created r)) (groupby_member_sum member_cards)))"

record label_row =
  lr_label :: string
  lr_count :: nat

definition get_cards_by_label ::
  "data_processor \<Rightarrow> datetime \<Rightarrow> datetime \<Rightarrow> error + label_row list" where
  "get_cards_by_label p start_date end_date =
     ebind (filter_by_date_range p start_date end_date) (\<lambda>df_filtered.
     let label_cards = concat (map (\<lambda>row. if labels row \<noteq> [] then labels row else [Sem_label])
                                   (rows df_filtered)) in
     if label_cards = [] then Inr []
     else Inr (sort_key (\<lambda>r. - int (lr_count r))
                (map (\<lambda>l. \<lparr>lr_label = l, lr_count = count_list label_cards l\<rparr>)
                     (rev (remdups (rev label_cards))))))"

text \<open>
  A float result: a number (kept exact here) or NaN. \<open>mean\<close> is \<open>Series.mean()\<close>,
  which skips missing values and is NaN when none is present.
\<close>

datatype number = Num rat | NaN

definition mean :: "rat option list \<Rightarrow> number" where
  "mean vs = (let xs = map the (filter (\<lambda>v. v \<noteq> None) vs) in
     if xs = [] then NaN else Num (sum_list xs / of_nat (length xs)))"

definition get_average_completion_time ::
  "data_processor \<Rightarrow> datetime \<Rightarrow> datetime \<Rightarrow> error + number" where
  "get_average_completion_time p start_date end_date =
     (let df = df_cards p;
          s = localize_if_naive start_date;
          e = localize_if_naive end_date in
      ebind (column ''completed_date'' completed_date df) (\<lambda>col.
      ebind (in_range_mask col s e) (\<lambda>msk.
      let df_completed = select_rows msk df in
      if length (rows df_completed) = 0 then Inr (Num 0)
      else ebind (column ''completion_time_days'' completion_time_days df_completed) (\<lambda>v.
           Inr (mean v)))))"

text \<open>
  \<open>pd.date_range(start, end, freq='D')\<close>: the start and every whole day after it up
  to the end; bounds of different timezones are refused.
\<close>

definition date_range :: "datetime \<Rightarrow> datetime \<Rightarrow> error + datetime list" where
  "date_range s e =
     (if utcoffset s \<noteq> utcoffset e then Inl TypeError
      else Inr (map (\<lambda>k. s\<lparr>wall := wall s + int k * day_us\<rparr>)
                    [0 ..< nat ((wall e - wall s) div day_us + 1)]))"

record timeline_row =
  tl_date :: datetime
  tl_created :: nat
  tl_completed :: nat

text \<open>
  \<open>pd.to_datetime(col)\<close>, which the timeline applies to the values present in a date
  column before it reads their dates with \<open>.dt.date\<close>. The conversion raises when the
  values do not share one timezone (naive with aware, or aware of different offsets).
  The source converts only when at least one value is present; the date of a value
  is the date of its own wall clock.
\<close>

definition to_datetime :: "datetime list \<Rightarrow> error + datetime list" where
  "to_datetime ds =
     (if length (remdups (map utcoffset ds)) \<le> 1 then Inr ds else Inl ValueError)"

definition dates_of_column :: "datetime option list \<Rightarrow> error + int list" where
  "dates_of_column col =
     (let present = map the (filter (\<lambda>v. v \<noteq> None) col) in
      if length present > 0
      then ebind (to_datetime present) (\<lambda>ds. Inr (map date_of ds))
      else Inr [])"

text \<open>
  \<open>groupby('date').size()\<close> looked up at a date: the number of values of the column
  on that calendar day, zero when the day is not in the index. The day of a row of
  the timeline is \<open>date.date()\<close>, the date of its wall clock.
\<close>

definition counts_at :: "int list \<Rightarrow> int \<Rightarrow> nat" where
  "counts_at dates d = (if d \<in> set dates then count_list dates d else 0)"

definition get_cards_timeline ::
  "data_processor \<Rightarrow> datetime \<Rightarrow> datetime \<Rightarrow> error + timeline_row list" where
  "get_cards_timeline p start_date end_date =
     (let df = df_cards p;
          s = localize_if_naive start_date;
          e = localize_if_naive end_date in
      ebind (date_range s e) (\<lambda>days.
      ebind (column ''created_date'' created_date df) (\<lambda>ccol.
      ebind (dates_of_column ccol) (\<lambda>created_dates.
      ebind (column ''completed_date'' completed_date df) (\<lambda>dcol.
      ebind (dates_of_column dcol) (\<lambda>completed_dates.
      Inr (map (\<lambda>d. \<lparr>tl_date = d,
                      tl_created = counts_at created_dates (date_of d),
                      tl_completed = counts_at completed_dates (date_of d)\<rparr>) days)))))))"

text \<open>
  The column \<open>completion_rate\<close> is \<open>(completed / created * 100).round(1)\<close>, which
  pandas computes in float64, column-wise and without raising: a zero divisor gives
  inf or NaN. Float arithmetic is not modelled. A rate is recorded by the counts it
  is computed from: \<open>Rate c n\<close> stands for the float64 value of the expression at
  \<open>completed = c\<close> and a non-zero \<open>created = n\<close>, and \<open>Inf_or_NaN\<close> for the value at a
  zero divisor.
\<close>

datatype rate = Rate nat nat | Inf_or_NaN

record ranking_row = member_row +
  completion_rate :: rate

definition with_completion_rate :: "member_row \<Rightarrow> ranking_row" where
  "with_completion_rate r =
     \<lparr>mr_member = mr_member r, mr_created = mr_created r, mr_completed = mr_completed r,
      completion_rate = (if mr_created r = 0 then Inf_or_NaN
                         else Rate (mr_completed r) (mr_created r))\<rparr>"

definition get_productivity_ranking ::
  "data_processor \<Rightarrow> datetime \<Rightarrow> datetime \<Rightarrow> error + ranking_row list" where
  "get_productivity_ranking p start_date end_date =
     ebind (get_cards_by_member p start_date end_date) (\<lambda>df_members.
     if length df_members = 0 then Inr []
     else Inr (sort_key (\<lambda>r. - int (mr_completed r)) (map with_completion_rate df_members)))"

section \<open>Configuration, the API client and the entry point\<close>

text \<open>
  \<open>config.py\<close>. The class attributes are read from the environment (after
  \<open>load_dotenv\<close>) with \<open>os.getenv(name, default)\<close>. The three defaults of the
  source are credential literals; they are a parameter \<open>lit\<close> here and are not
  reproduced: only whether they are empty matters to the code below.
\<close>

type_synonym environ = "string \<rightharpoonup> string"

definition getenv :: "environ \<Rightarrow> string \<Rightarrow> string \<Rightarrow> string" where
  "getenv env k dflt = (case env k of None \<Rightarrow> dflt | Some v \<Rightarrow> v)"

record literals =
  api_key_literal :: string
  token_literal :: string
  board_id_literal :: string

record config =
  TRELLO_API_KEY :: string
  TRELLO_TOKEN :: string
  TRELLO_BOARD_ID :: string
  TRELLO_API_BASE_URL :: string

definition Config :: "literals \<Rightarrow> environ \<Rightarrow> config" where
  "Config lit env =
     \<lparr>TRELLO_API_KEY = getenv env ''TRELLO_API_KEY'' (api_key_literal lit),
      TRELLO_TOKEN = getenv env ''TRELLO_TOKEN'' (token_literal lit),
      TRELLO_BOARD_ID = getenv env ''TRELLO_BOARD_ID'' (board_id_literal lit),
      TRELLO_API_BASE_URL = ''https://api.trello.com/1''\<rparr>"

text \<open>\<open>all([...])\<close> over three strings: each must be non-empty.\<close>

definition is_configured :: "config \<Rightarrow> bool" where
  "is_configured c = (TRELLO_API_KEY c \<noteq> [] \<and> TRELLO_TOKEN c \<noteq> [] \<and> TRELLO_BOARD_ID c \<noteq> [])"

definition get_auth_params :: "config \<Rightarrow> (string \<times> string) list" where
  "get_auth_params c = [(''key'', TRELLO_API_KEY c), (''token'', TRELLO_TOKEN c)]"

text \<open>
  \<open>trello_api.py\<close>. A request is the URL and the query parameters of one
  \<open>requests.get\<close>. The remote service is a family of handlers, one for each kind of
  endpoint, typed by the keys the source reads from the answer; \<open>Inl\<close> is the raise
  of \<open>requests.get\<close>, \<open>raise_for_status\<close> or \<open>json\<close>. Every function threads the list
  of the requests issued so far.
\<close>

record request =
  url :: string
  params :: "(string \<times> string) list"

record remote =
  board_handler :: "request \<Rightarrow> error + string"
  lists_handler :: "request \<Rightarrow> error + (string \<times> string) list"
  members_handler :: "request \<Rightarrow> error + (string \<times> string) list"
  cards_handler :: "request \<Rightarrow> error + card list"
  labels_handler :: "request \<Rightarrow> error + string list"
  actions_handler :: "request \<Rightarrow> error + action list"

record trello_api =
  base_url :: string
  auth_params :: "(string \<times> string) list"
  board_id :: string

definition TrelloAPI :: "config \<Rightarrow> trello_api" where
  "TrelloAPI c = \<lparr>base_url = TRELLO_API_BASE_URL c, auth_params = get_auth_params c,
                   board_id = TRELLO_BOARD_ID c\<rparr>"

text \<open>
  \<open>_make_request\<close>: the parameters update a copy of the authentication parameters,
  the request is issued, and a \<open>RequestException\<close> is raised again as an
  \<open>Exception\<close> that names the URL.
\<close>

definition make_request ::
  "trello_api \<Rightarrow> (request \<Rightarrow> error + 'a) \<Rightarrow> string \<Rightarrow> (string \<times> string) list
     \<Rightarrow> request list \<Rightarrow> request list \<times> (error + 'a)" where
  "make_request api handler endpoint ps reqs =
     (let req = \<lparr>url = base_url api @ endpoint,
                 params = foldl (\<lambda>d (k, v). AList.update k v d) (auth_params api) ps\<rparr>
      in (reqs @ [req],
          case handler req of
            Inl (RequestException m) \<Rightarrow>
              Inl (Exception (''Erro ao fazer requisi'' @ [CHR 0xE7, CHR 0xE3] @ ''o para ''
                              @ url req @ '': '' @ m))
          | Inl e \<Rightarrow> Inl e
          | Inr v \<Rightarrow> Inr v))"

definition get_board_info :: "trello_api \<Rightarrow> remote \<Rightarrow> request list \<Rightarrow> request list \<times> (error + string)" where
  "get_board_info api r =
     make_request api (board_handler r) (''/boards/'' @ board_id api) [(''fields'', ''name,desc,url'')]"

definition get_lists ::
  "trello_api \<Rightarrow> remote \<Rightarrow> request list \<Rightarrow> request list \<times> (error + (string \<times> string) list)" where
  "get_lists api r =
     make_request api (lists_handler r) (''/boards/'' @ board_id api @ ''/lists'')
       [(''fields'', ''name,closed,pos'')]"

definition get_members ::
  "trello_api \<Rightarrow> remote \<Rightarrow> request list \<Rightarrow> request list \<times> (error + (string \<times> string) list)" where
  "get_members api r =
     make_request api (members_handler r) (''/boards/'' @ board_id api @ ''/members'')
       [(''fields'', ''fullName,username,avatarUrl'')]"

definition get_cards ::
  "trello_api \<Rightarrow> remote \<Rightarrow> bool \<Rightarrow> request list \<Rightarrow> request list \<times> (error + card list)" where
  "get_cards api r include_closed =
     make_request api (cards_handler r) (''/boards/'' @ board_id api @ ''/cards'')
       [(''fields'', ''name,desc,due,dueComplete,idList,idMembers,labels,dateLastActivity,closed''),
        (''members'', ''true''),
        (''member_fields'', ''fullName,username''),
        (''filter'', if include_closed then ''all'' else ''open'')]"

definition get_card_actions ::
  "trello_api \<Rightarrow> remote \<Rightarrow> string \<Rightarrow> request list \<Rightarrow> request list \<times> (error + action list)" where
  "get_card_actions api r card_id =
     make_request api (actions_handler r) (''/cards/'' @ card_id @ ''/actions'')
       [(''filter'', ''createCard,updateCard:idList,updateCard:closed''),
        (''fields'', ''type,date,data''),
        (''member'', ''true''),
        (''member_fields'', ''fullName,username'')]"

definition get_labels ::
  "trello_api \<Rightarrow> remote \<Rightarrow> request list \<Rightarrow> request list \<times> (error + string list)" where
  "get_labels api r =
     make_request api (labels_handler r) (''/boards/'' @ board_id api @ ''/labels'')
       [(''fields'', ''name,color'')]"

text \<open>
  The loop of \<open>get_all_board_data\<close> over the cards: a failed action fetch is caught
  and leaves the card with an empty action list.
\<close>

fun fetch_actions ::
  "trello_api \<Rightarrow> remote \<Rightarrow> card list \<Rightarrow> request list \<Rightarrow> request list \<times> card list" where
  "fetch_actions api r [] reqs = (reqs, [])"
| "fetch_actions api r (c # cs) reqs =
     (case get_card_actions api r (c_id c) reqs of
        (log1, res) \<Rightarrow>
          (case fetch_actions api r cs log1 of
             (log2, cs') \<Rightarrow>
               (log2, c\<lparr>actions := (case res of Inl e \<Rightarrow> [] | Inr acts \<Rightarrow> acts)\<rparr> # cs')))"

definition get_all_board_data ::
  "trello_api \<Rightarrow> remote \<Rightarrow> request list \<Rightarrow> request list \<times> (error + trello_data)" where
  "get_all_board_data api r log0 =
     (case get_board_info api r log0 of
        (log1, Inl e) \<Rightarrow> (log1, Inl e)
      | (log1, Inr board_info) \<Rightarrow>
     (case get_lists api r log1 of
        (log2, Inl e) \<Rightarrow> (log2, Inl e)
      | (log2, Inr lsts) \<Rightarrow>
     (case get_members api r log2 of
        (log3, Inl e) \<Rightarrow> (log3, Inl e)
      | (log3, Inr mems) \<Rightarrow>
     (case get_cards api r False log3 of
        (log4, Inl e) \<Rightarrow> (log4, Inl e)
      | (log4, Inr cs) \<Rightarrow>
     (case get_labels api r log4 of
        (log5, Inl e) \<Rightarrow> (log5, Inl e)
      | (log5, Inr lbls) \<Rightarrow>
     (case fetch_actions api r cs log5 of
        (log6, cs') \<Rightarrow>
          (log6, Inr \<lparr>td_board = board_info, td_lists = lsts, td_members = mems,
                       td_cards = cs', td_labels = lbls\<rparr>)))))))"

text \<open>
  \<open>app.py\<close>. \<open>load_trello_data\<close> turns any exception into an error value (the
  cache of five minutes around it is left out: it only saves requests). \<open>main\<close>
  is followed up to the page it decides to render, with the requests issued on the
  way: the configuration page, the error page, or the dashboard over the loaded data.
\<close>

definition load_trello_data :: "config \<Rightarrow> remote \<Rightarrow> request list \<times> (error + trello_data)" where
  "load_trello_data c r = get_all_board_data (TrelloAPI c) r []"

datatype page = ConfigPage | ErrorPage error | Dashboard trello_data

definition main :: "config \<Rightarrow> remote \<Rightarrow> request list \<times> page" where
  "main c r =
     (if \<not> is_configured c then ([], ConfigPage)
      else (case load_trello_data c r of
              (reqs, Inl e) \<Rightarrow> (reqs, ErrorPage e)
            | (reqs, Inr trello_data) \<Rightarrow> (reqs, Dashboard trello_data)))"

section \<open>Example boards\<close>

text \<open>
  A board with the three lists of the dashboard and one open card that was moved
  into the done list on 5 January and back to the in-progress list on 8 January.
  The API returns the actions newest first.
\<close>

definition lists0 :: "(string \<times> string) list" where
  "lists0 = [(''L1'', ''A Fazer''), (''L2'', ''Fazendo''), (''L3'', ''Conclu'' @ [CHR 0xED] @ ''do'')]"

definition members0 :: "(string \<times> string) list" where
  "members0 = [(''m1'', ''Ana''), (''m2'', ''Bruno'')]"

definition card_reopened :: card where
  "card_reopened = \<lparr>c_id = ''c1'', c_name = ''Reopened'', closed = False, idList = Some ''L2'',
     actions = [
       \<lparr>atype = ''updateCard'', adate = ''2024-01-08T09:00:00.000Z'', list_after = Some ''Fazendo''\<rparr>,
       \<lparr>atype = ''updateCard'', adate = ''2024-01-05T10:00:00.000Z'',
         list_after = Some (''Conclu'' @ [CHR 0xED] @ ''do'')\<rparr>,
       \<lparr>atype = ''createCard'', adate = ''2024-01-01T08:00:00.000Z'', list_after = None\<rparr>],
     dateLastActivity = Some ''2024-01-08T09:00:00.000Z'', due = None, dueComplete = False,
     idMembers = [''m1''], c_labels = []\<rparr>"

definition board_reopened :: trello_data where
  "board_reopened = \<lparr>td_board = ''Equipe'', td_lists = lists0, td_members = members0,
     td_cards = [card_reopened], td_labels = []\<rparr>"

definition row_reopened :: derived_card where
  "row_reopened = \<lparr>row_id = ''c1'', row_name = ''Reopened'', list_name = ''Fazendo'',
     created_date = Some \<lparr>wall = 1704096000000000, utcoffset = Some 0\<rparr>,
     completed_date = None, due_date = None, is_overdue = False, is_closed = False,
     members = [''Ana''], member_count = 1, labels = [], label_count = 0,
     completion_time_days = None\<rparr>"

definition proc_reopened :: data_processor where
  "proc_reopened = \<lparr>self_board = ''Equipe'', self_lists = lists0, self_members = members0,
     self_cards = [card_reopened], self_labels = [],
     lists_dict = dict_of lists0, members_dict = dict_of members0,
     df_cards = pd_DataFrame [row_reopened]\<rparr>"

text \<open>The instant 2024-02-01T00:00:00Z, used as the current time of the examples.\<close>

definition feb1 :: int where
  "feb1 = 1706745600000000"

text \<open>
  A board with four cards: one moved into the done list twice (the list names of its
  actions differ in case and padding), one whose only action is an \<open>updateCard\<close>,
  one in the done list whose action history is empty (as after a failed action
  fetch), and an archived one.
\<close>

definition card_done_twice :: card where
  "card_done_twice = \<lparr>c_id = ''c2'', c_name = ''Relatorio'', closed = False, idList = Some ''L3'',
     actions = [
       \<lparr>atype = ''updateCard'', adate = ''2024-01-07T15:30:00.000Z'',
         list_after = Some (''  CONCLU'' @ [CHR 0xCD] @ ''DO '')\<rparr>,
       \<lparr>atype = ''updateCard'', adate = ''2024-01-06T09:00:00.000Z'', list_after = Some ''Fazendo''\<rparr>,
       \<lparr>atype = ''updateCard'', adate = ''2024-01-05T10:00:00.000Z'',
         list_after = Some (''Conclu'' @ [CHR 0xED] @ ''do'')\<rparr>,
       \<lparr>atype = ''createCard'', adate = ''2024-01-01T08:00:00.000Z'', list_after = None\<rparr>],
     dateLastActivity = Some ''2024-01-09T00:00:00.000Z'', due = None, dueComplete = False,
     idMembers = [''m1'', ''m2''], c_labels = [Some ''Bug'', None, Some '''']\<rparr>"

definition card_update_only :: card where
  "card_update_only = \<lparr>c_id = ''c3'', c_name = ''Migrado'', closed = False, idList = Some ''L2'',
     actions = [
       \<lparr>atype = ''updateCard'', adate = ''2024-01-03T12:00:00.000Z'', list_after = Some ''Fazendo''\<rparr>],
     dateLastActivity = Some ''2024-01-04T18:00:00.000Z'',
     due = Some ''2023-12-31T00:00:00.000Z'', dueComplete = False,
     idMembers = [], c_labels = []\<rparr>"

definition card_no_actions :: card where
  "card_no_actions = \<lparr>c_id = ''c4'', c_name = ''Importado'', closed = False, idList = Some ''L3'',
     actions = [],
     dateLastActivity = Some ''2024-01-02T06:00:00.000Z'', due = None, dueComplete = False,
     idMembers = [''m9''], c_labels = []\<rparr>"

definition card_archived :: card where
  "card_archived = \<lparr>c_id = ''c5'', c_name = ''Antigo'', closed = True, idList = Some ''L1'',
     actions = [], dateLastActivity = None, due = None, dueComplete = False,
     idMembers = [], c_labels = []\<rparr>"

definition board_team :: trello_data where
  "board_team = \<lparr>td_board = ''Equipe'', td_lists = lists0, td_members = members0,
     td_cards = [card_done_twice, card_update_only, card_no_actions, card_archived],
     td_labels = [''Bug'']\<rparr>"

definition row_done_twice :: derived_card where
  "row_done_twice = \<lparr>row_id = ''c2'', row_name = ''Relatorio'',
     list_name = ''Conclu'' @ [CHR 0xED] @ ''do'',
     created_date = Some \<lparr>wall = 1704096000000000, utcoffset = Some 0\<rparr>,
     completed_date = Some \<lparr>wall = 1704641400000000, utcoffset = Some 0\<rparr>,
     due_date = None, is_overdue = False, is_closed = False,
     members = [''Ana'', ''Bruno''], member_count = 2, labels = [''Bug''], label_count = 1,
     completion_time_days = Some (101 / 16)\<rparr>"

definition row_update_only :: derived_card where
  "row_update_only = \<lparr>row_id = ''c3'', row_name = ''Migrado'', list_name = ''Fazendo'',
     created_date = Some \<lparr>wall = 1704391200000000, utcoffset = Some 0\<rparr>,
     completed_date = None,
     due_date = Some \<lparr>wall = 1703980800000000, utcoffset = Some 0\<rparr>,
     is_overdue = True, is_closed = False, members = [], member_count = 0,
     labels = [], label_count = 0, completion_time_days = None\<rparr>"

definition row_no_actions :: derived_card where
  "row_no_actions = \<lparr>row_id = ''c4'', row_name = ''Importado'',
     list_name = ''Conclu'' @ [CHR 0xED] @ ''do'',
     created_date = Some \<lparr>wall = 1704175200000000, utcoffset = Some 0\<rparr>,
     completed_date = Some \<lparr>wall = 1704175200000000, utcoffset = Some 0\<rparr>,
     due_date = None, is_overdue = False, is_closed = False,
     members = [''Desconhecido''], member_count = 1, labels = [], label_count = 0,
     completion_time_days = Some 0\<rparr>"

definition proc_team :: data_processor where
  "proc_team = \<lparr>self_board = ''Equipe'', self_lists = lists0, self_members = members0,
     self_cards = [card_done_twice, card_update_only, card_no_actions, card_archived],
     self_labels = [''Bug''],
     lists_dict = dict_of lists0, members_dict = dict_of members0,
     df_cards = pd_DataFrame [row_done_twice, row_update_only, row_no_actions]\<rparr>"

text \<open>
  The range the dashboard passes for January 2024: naive bounds, from the first
  microsecond of 1 January to the last microsecond of 31 January.
\<close>

definition jan1_start :: datetime where
  "jan1_start = \<lparr>wall = 1704067200000000, utcoffset = None\<rparr>"

definition jan31_end :: datetime where
  "jan31_end = \<lparr>wall = 1706745599999999, utcoffset = None\<rparr>"

text \<open>The productivity ranking of \<open>proc_team\<close> for January 2024.\<close>

definition ranking_team :: "ranking_row list" where
  "ranking_team =
     [\<lparr>mr_member = ''Ana'', mr_created = 1, mr_completed = 1, completion_rate = Rate 1 1\<rparr>,
      \<lparr>mr_member = ''Bruno'', mr_created = 1, mr_completed = 1, completion_rate = Rate 1 1\<rparr>,
      \<lparr>mr_member = ''Desconhecido'', mr_created = 1, mr_completed = 1, completion_rate = Rate 1 1\<rparr>,
      \<lparr>mr_member = Sem_atribuicao, mr_created = 1, mr_completed = 0, completion_rate = Rate 0 1\<rparr>]"

text \<open>
  A board without cards, and a board whose only card is archived: both give a
  derived table without rows.
\<close>

definition board_empty :: trello_data where
  "board_empty = \<lparr>td_board = ''Equipe'', td_lists = lists0, td_members = members0,
     td_cards = [], td_labels = []\<rparr>"

definition proc_empty :: data_processor where
  "proc_empty = \<lparr>self_board = ''Equipe'', self_lists = lists0, self_members = members0,
     self_cards = [], self_labels = [],
     lists_dict = dict_of lists0, members_dict = dict_of members0,
     df_cards = pd_DataFrame []\<rparr>"

definition board_archived :: trello_data where
  "board_archived = \<lparr>td_board = ''Equipe'', td_lists = lists0, td_members = members0,
     td_cards = [card_archived], td_labels = []\<rparr>"

definition proc_archived :: data_processor where
  "proc_archived = \<lparr>self_board = ''Equipe'', self_lists = lists0, self_members = members0,
     self_cards = [card_archived], self_labels = [],
     lists_dict = dict_of lists0, members_dict = dict_of members0,
     df_cards = pd_DataFrame []\<rparr>"

text \<open>
  A board whose card carries a last-activity timestamp without a UTC designator:
  its parsed timestamps are naive.
\<close>

definition card_naive :: card where
  "card_naive = \<lparr>c_id = ''c6'', c_name = ''Local'', closed = False, idList = Some ''L3'',
     actions = [],
     dateLastActivity = Some ''2024-01-02T06:00:00.000'', due = None, dueComplete = False,
     idMembers = [], c_labels = []\<rparr>"

definition board_naive :: trello_data where
  "board_naive = \<lparr>td_board = ''Equipe'', td_lists = lists0, td_members = members0,
     td_cards = [card_naive], td_labels = []\<rparr>"

definition row_naive :: derived_card where
  "row_naive = \<lparr>row_id = ''c6'', row_name = ''Local'',
     list_name = ''Conclu'' @ [CHR 0xED] @ ''do'',
     created_date = Some \<lparr>wall = 1704175200000000, utcoffset = None\<rparr>,
     completed_date = Some \<lparr>wall = 1704175200000000, utcoffset = None\<rparr>,
     due_date = None, is_overdue = False, is_closed = False,
     members = [], member_count = 0, labels = [], label_count = 0,
     completion_time_days = Some 0\<rparr>"

definition proc_naive :: data_processor where
  "proc_naive = \<lparr>self_board = ''Equipe'', self_lists = lists0, self_members = members0,
     self_cards = [card_naive], self_labels = [],
     lists_dict = dict_of lists0, members_dict = dict_of members0,
     df_cards = pd_DataFrame [row_naive]\<rparr>"

text \<open>
  Two more ranges: the first three days of January 2024 as the dashboard would pass
  them, and the two hours around the midnight between 1 and 2 January.
\<close>

definition jan3_end :: datetime where
  "jan3_end = \<lparr>wall = 1704326399999999, utcoffset = None\<rparr>"

definition jan1_23h :: datetime where
  "jan1_23h = \<lparr>wall = 1704150000000000, utcoffset = None\<rparr>"

definition jan2_01h :: datetime where
  "jan2_01h = \<lparr>wall = 1704157200000000, utcoffset = None\<rparr>"

definition timeline_team :: "timeline_row list" where
  "timeline_team =
     [\<lparr>tl_date = \<lparr>wall = 1704067200000000, utcoffset = Some 0\<rparr>, tl_created = 1, tl_completed = 0\<rparr>,
      \<lparr>tl_date = \<lparr>wall = 1704153600000000, utcoffset = Some 0\<rparr>, tl_created = 1, tl_completed = 1\<rparr>,
      \<lparr>tl_date = \<lparr>wall = 1704240000000000, utcoffset = Some 0\<rparr>, tl_created = 0, tl_completed = 0\<rparr>]"

text \<open>The range from noon of 1 January to noon of 3 January 2024, and its timeline.\<close>

definition jan1_noon :: datetime where
  "jan1_noon = \<lparr>wall = 1704110400000000, utcoffset = None\<rparr>"

definition jan3_noon :: datetime where
  "jan3_noon = \<lparr>wall = 1704283200000000, utcoffset = None\<rparr>"

definition timeline_noon :: "timeline_row list" where
  "timeline_noon =
     [\<lparr>tl_date = \<lparr>wall = 1704110400000000, utcoffset = Some 0\<rparr>, tl_created = 1, tl_completed = 0\<rparr>,
      \<lparr>tl_date = \<lparr>wall = 1704196800000000, utcoffset = Some 0\<rparr>, tl_created = 1, tl_completed = 1\<rparr>,
      \<lparr>tl_date = \<lparr>wall = 1704283200000000, utcoffset = Some 0\<rparr>, tl_created = 0, tl_completed = 0\<rparr>]"

text \<open>
  For the entry point: stand-ins for the three non-empty literals of \<open>config.py\<close>,
  an environment that sets the token to the empty string, an unreachable service,
  and a service that serves the open cards of \<open>board_team\<close> and fails on the action
  history of the card \<open>c4\<close>.
\<close>

definition source_literals :: literals where
  "source_literals = \<lparr>api_key_literal = ''KEY-LITERAL'', token_literal = ''TOKEN-LITERAL'',
     board_id_literal = ''BOARD-LITERAL''\<rparr>"

definition env_empty_token :: environ where
  "env_empty_token = [''TRELLO_API_KEY'' \<mapsto> ''k1'', ''TRELLO_TOKEN'' \<mapsto> '''',
     ''TRELLO_BOARD_ID'' \<mapsto> ''b1'']"

definition remote_down :: remote where
  "remote_down = \<lparr>board_handler = (\<lambda>req. Inl (RequestException ''connection refused'')),
     lists_handler = (\<lambda>req. Inl (RequestException ''connection refused'')),
     members_handler = (\<lambda>req. Inl (RequestException ''connection refused'')),
     cards_handler = (\<lambda>req. Inl (RequestException ''connection refused'')),
     labels_handler = (\<lambda>req. Inl (RequestException ''connection refused'')),
     actions_handler = (\<lambda>req. Inl (RequestException ''connection refused''))\<rparr>"

definition remote_team :: remote where
  "remote_team = \<lparr>board_handler = (\<lambda>req. Inr ''Equipe''),
     lists_handler = (\<lambda>req. Inr lists0),
     members_handler = (\<lambda>req. Inr members0),
     cards_handler = (\<lambda>req. Inr (map (\<lambda>c. c\<lparr>actions := []\<rparr>)
                                   [card_done_twice, card_update_only, card_no_actions])),
     labels_handler = (\<lambda>req. Inr [''Bug'']),
     actions_handler = (\<lambda>req.
        if url req = ''https://api.trello.com/1/cards/c2/actions'' then Inr (actions card_done_twice)
        else if url req = ''https://api.trello.com/1/cards/c3/actions'' then Inr (actions card_update_only)
        else Inl (RequestException ''timeout''))\<rparr>"

text \<open>
  Three more cards in the done list. The first has two creation actions and two
  moves into the done list, all dated in the format of the API. The second has the
  same history with two of the dates written with other UTC offsets:
  \<open>02:00-05:00\<close> is 07:00 UTC and \<open>10:00+05:00\<close> is 05:00 UTC. The third was moved
  into the done list at \<open>10:00+05:00\<close>.
\<close>

definition card_same_format :: card where
  "card_same_format = \<lparr>c_id = ''c7'', c_name = ''Copiado'', closed = False, idList = Some ''L3'',
     actions = [
       \<lparr>atype = ''updateCard'', adate = ''2024-01-05T08:00:00.000Z'',
         list_after = Some (''Conclu'' @ [CHR 0xED] @ ''do'')\<rparr>,
       \<lparr>atype = ''updateCard'', adate = ''2024-01-05T05:00:00.000Z'',
         list_after = Some (''Conclu'' @ [CHR 0xED] @ ''do'')\<rparr>,
       \<lparr>atype = ''createCard'', adate = ''2024-01-01T07:00:00.000Z'', list_after = None\<rparr>,
       \<lparr>atype = ''createCard'', adate = ''2024-01-01T03:00:00.000Z'', list_after = None\<rparr>],
     dateLastActivity = Some ''2024-01-05T08:00:00.000Z'', due = None, dueComplete = False,
     idMembers = [], c_labels = []\<rparr>"

definition board_same_format :: trello_data where
  "board_same_format = \<lparr>td_board = ''Equipe'', td_lists = lists0, td_members = members0,
     td_cards = [card_same_format], td_labels = []\<rparr>"

definition row_same_format :: derived_card where
  "row_same_format = \<lparr>row_id = ''c7'', row_name = ''Copiado'',
     list_name = ''Conclu'' @ [CHR 0xED] @ ''do'',
     created_date = Some \<lparr>wall = 1704078000000000, utcoffset = Some 0\<rparr>,
     completed_date = Some \<lparr>wall = 1704441600000000, utcoffset = Some 0\<rparr>,
     due_date = None, is_overdue = False, is_closed = False,
     members = [], member_count = 0, labels = [], label_count = 0,
     completion_time_days = Some (101 / 24)\<rparr>"

definition proc_same_format :: data_processor where
  "proc_same_format = \<lparr>self_board = ''Equipe'', self_lists = lists0, self_members = members0,
     self_cards = [card_same_format], self_labels = [],
     lists_dict = dict_of lists0, members_dict = dict_of members0,
     df_cards = pd_DataFrame [row_same_format]\<rparr>"

definition card_mixed_offsets :: card where
  "card_mixed_offsets = \<lparr>c_id = ''c8'', c_name = ''Fusos'', closed = False, idList = Some ''L3'',
     actions = [
       \<lparr>atype = ''updateCard'', adate = ''2024-01-05T08:00:00.000Z'',
         list_after = Some (''Conclu'' @ [CHR 0xED] @ ''do'')\<rparr>,
       \<lparr>atype = ''updateCard'', adate = ''2024-01-05T10:00:00.000+05:00'',
         list_after = Some (''Conclu'' @ [CHR 0xED] @ ''do'')\<rparr>,
       \<lparr>atype = ''createCard'', adate = ''2024-01-01T02:00:00.000-05:00'', list_after = None\<rparr>,
       \<lparr>atype = ''createCard'', adate = ''2024-01-01T03:00:00.000Z'', list_after = None\<rparr>],
     dateLastActivity = Some ''2024-01-05T08:00:00.000Z'', due = None, dueComplete = False,
     idMembers = [], c_labels = []\<rparr>"

definition board_mixed_offsets :: trello_data where
  "board_mixed_offsets = \<lparr>td_board = ''Equipe'', td_lists = lists0, td_members = members0,
     td_cards = [card_mixed_offsets], td_labels = []\<rparr>"

definition row_mixed_offsets :: derived_card where
  "row_mixed_offsets = \<lparr>row_id = ''c8'', row_name = ''Fusos'',
     list_name = ''Conclu'' @ [CHR 0xED] @ ''do'',
     created_date = Some \<lparr>wall = 1704074400000000, utcoffset = Some (- 18000000000)\<rparr>,
     completed_date = Some \<lparr>wall = 1704448800000000, utcoffset = Some 18000000000\<rparr>,
     due_date = None, is_overdue = False, is_closed = False,
     members = [], member_count = 0, labels = [], label_count = 0,
     completion_time_days = Some (47 / 12)\<rparr>"

definition proc_mixed_offsets :: data_processor where
  "proc_mixed_offsets = \<lparr>self_board = ''Equipe'', self_lists = lists0, self_members = members0,
     self_cards = [card_mixed_offsets], self_labels = [],
     lists_dict = dict_of lists0, members_dict = dict_of members0,
     df_cards = pd_DataFrame [row_mixed_offsets]\<rparr>"

definition card_done_plus5 :: card where
  "card_done_plus5 = \<lparr>c_id = ''c9'', c_name = ''Remoto'', closed = False, idList = Some ''L3'',
     actions = [
       \<lparr>atype = ''updateCard'', adate = ''2024-01-06T10:00:00.000+05:00'',
         list_after = Some (''Conclu'' @ [CHR 0xED] @ ''do'')\<rparr>,
       \<lparr>atype = ''createCard'', adate = ''2024-01-02T09:00:00.000Z'', list_after = None\<rparr>],
     dateLastActivity = Some ''2024-01-06T05:00:00.000Z'', due = None, dueComplete = False,
     idMembers = [], c_labels = []\<rparr>"

definition row_done_plus5 :: derived_card where
  "row_done_plus5 = \<lparr>row_id = ''c9'', row_name = ''Remoto'',
     list_name = ''Conclu'' @ [CHR 0xED] @ ''do'',
     created_date = Some \<lparr>wall = 1704186000000000, utcoffset = Some 0\<rparr>,
     completed_date = Some \<lparr>wall = 1704535200000000, utcoffset = Some 18000000000\<rparr>,
     due_date = None, is_overdue = False, is_closed = False,
     members = [], member_count = 0, labels = [], label_count = 0,
     completion_time_days = Some (23 / 6)\<rparr>"

definition board_two_zones :: trello_data where
  "board_two_zones = \<lparr>td_board = ''Equipe'', td_lists = lists0, td_members = members0,
     td_cards = [card_done_twice, card_done_plus5], td_labels = []\<rparr>"

definition proc_two_zones :: data_processor where
  "proc_two_zones = \<lparr>self_board = ''Equipe'', self_lists = lists0, self_members = members0,
     self_cards = [card_done_twice, card_done_plus5], self_labels = [],
     lists_dict = dict_of lists0, members_dict = dict_of members0,
     df_cards = pd_DataFrame [row_done_twice, row_done_plus5]\<rparr>"

section \<open>Basic lemmas\<close>

lemma ebind_Inr_iff: "ebind m f = Inr y \<longleftrightarrow> (\<exists>x. m = Inr x \<and> f x = Inr y)"
  by (cases m) (simp_all add: ebind_def)

lemma ebind_Inr [simp]: "ebind (Inr x) f = f x"
  by (simp add: ebind_def)

lemma ebind_Inl [simp]: "ebind (Inl e) f = Inl e"
  by (simp add: ebind_def)

lemma traverse_Inr: "traverse f xs = Inr ys \<Longrightarrow> list_all2 (\<lambda>x y. f x = Inr y) xs ys"
proof (induction xs arbitrary: ys)
  case Nil
  then show ?case by simp
next
  case (Cons x xs)
  then show ?case by (auto simp: ebind_Inr_iff)
qed

lemma create_cards_dataframe_rows:
  assumes "create_cards_dataframe fromiso now ld md cs = Inr df"
  shows "list_all2 (\<lambda>c r. derive_card fromiso now ld md c = Inr r)
           (filter (\<lambda>c. \<not> closed c) cs) (rows df)"
  using assms traverse_Inr
  by (fastforce simp: create_cards_dataframe_def ebind_Inr_iff pd_DataFrame_def)

lemma DataProcessor_rows:
  assumes "DataProcessor fromiso now td = Inr p"
  shows "list_all2 (\<lambda>c r. derive_card fromiso now (dict_of (td_lists td)) (dict_of (td_members td)) c = Inr r)
           (filter (\<lambda>c. \<not> closed c) (td_cards td)) (rows (df_cards p))"
  using assms create_cards_dataframe_rows
  by (fastforce simp: DataProcessor_def Let_def ebind_Inr_iff)

lemma derive_reopened:
  "derive_card trello_fromisoformat (clock_at feb1) (dict_of lists0) (dict_of members0) card_reopened
     = Inr row_reopened"
  by code_simp

lemma DataProcessor_reopened:
  "DataProcessor trello_fromisoformat (clock_at feb1) board_reopened = Inr proc_reopened"
proof -
  have "\<not> closed card_reopened" by (simp add: card_reopened_def)
  then show ?thesis
    by (simp add: DataProcessor_def Let_def board_reopened_def create_cards_dataframe_def
        proc_reopened_def derive_reopened)
qed

section \<open>Completion follows the current list\<close>

lemma derive_card_not_done:
  assumes "derive_card fromiso now ld md c = Inr r"
    and "lower (strip (list_name r)) \<noteq> concluido"
  shows "completed_date r = None"
  using assms
  by (auto simp: derive_card_def Let_def ebind_Inr_iff split: if_splits)

text \<open>
  Claim C1. In the table \<open>DataProcessor\<close> derives from a board, every row whose list
  name, stripped and lower-cased, differs from the done-list name has no
  \<open>completed_date\<close>, whatever the card's actions are. The witness is the card
  moved into the done list on 5 January and out of it on 8 January: it sits in the
  in-progress list and its \<open>completed_date\<close> is \<open>None\<close>, not 5 January.
\<close>

theorem completed_date_requires_done_list:
  assumes "DataProcessor fromiso now td = Inr p"
    and "r \<in> set (rows (df_cards p))"
    and "lower (strip (list_name r)) \<noteq> concluido"
  shows "completed_date r = None"
proof -
  from DataProcessor_rows [OF assms(1)] assms(2)
  obtain c where "derive_card fromiso now (dict_of (td_lists td)) (dict_of (td_members td)) c = Inr r"
    by (auto simp: list_all2_conv_all_nth in_set_conv_nth)
  then show ?thesis using assms(3) by (rule derive_card_not_done)
qed

theorem completed_date_requires_done_list_witness:
  "DataProcessor trello_fromisoformat (clock_at feb1) board_reopened = Inr proc_reopened
   \<and> row_reopened \<in> set (rows (df_cards proc_reopened))
   \<and> lower (strip (list_name row_reopened)) \<noteq> concluido
   \<and> is_move_to_done (actions card_reopened ! 1)
   \<and> completed_date row_reopened = None"
proof -
  have h2: "row_reopened \<in> set (rows (df_cards proc_reopened))"
    by (simp add: proc_reopened_def pd_DataFrame_def)
  have h3: "lower (strip (list_name row_reopened)) \<noteq> concluido"
    by code_simp
  have h4: "is_move_to_done (actions card_reopened ! 1)"
    by code_simp
  from completed_date_requires_done_list [OF DataProcessor_reopened h2 h3]
  show ?thesis using DataProcessor_reopened h2 h3 h4 by simp
qed

section \<open>Creation and completion timestamps\<close>

text \<open>
  The first match of a scan over a list sorted by a key has the least key among the
  matches; the first match of the scan over the reversed list has the greatest.
\<close>

lemma find_sorted_least:
  "sorted (map f ys) \<Longrightarrow> find P ys = Some a \<Longrightarrow> P a \<and> a \<in> set ys \<and> (\<forall>b \<in> set ys. P b \<longrightarrow> f a \<le> f b)"
  by (induction ys) (auto split: if_splits)

lemma find_rev_sorted_greatest:
  "sorted (map f ys) \<Longrightarrow> find P (rev ys) = Some a \<Longrightarrow> P a \<and> a \<in> set ys \<and> (\<forall>b \<in> set ys. P b \<longrightarrow> f b \<le> f a)"
proof (induction ys rule: rev_induct)
  case Nil
  then show ?case by simp
next
  case (snoc y ys)
  then show ?case by (auto simp: sorted_append split: if_splits)
qed

lemma creation_action_Some:
  assumes "creation_action acts = Some a"
  shows "a \<in> set acts \<and> atype a = ''createCard'' \<and>
         adate a = Min (adate ` {x \<in> set acts. atype x = ''createCard''})"
proof -
  from assms have f: "find (\<lambda>a. atype a = ''createCard'') (sort_key adate acts) = Some a"
    by (simp add: creation_action_def split: if_splits)
  have "sorted (map adate (sort_key adate acts))" by simp
  from find_sorted_least [OF this f]
  have a: "atype a = ''createCard''" "a \<in> set acts"
    and le: "\<forall>b \<in> set acts. atype b = ''createCard'' \<longrightarrow> adate a \<le> adate b"
    by auto
  have "Min (adate ` {x \<in> set acts. atype x = ''createCard''}) = adate a"
    by (rule Min_eqI) (use a le in auto)
  with a show ?thesis by simp
qed

lemma creation_action_None:
  "creation_action acts = None \<longleftrightarrow> {x \<in> set acts. atype x = ''createCard''} = {}"
  by (auto simp: creation_action_def find_None_iff)

lemma done_action_Some:
  assumes "done_action acts = Some a"
  shows "a \<in> set acts \<and> is_move_to_done a \<and>
         adate a = Max (adate ` {x \<in> set acts. is_move_to_done x})"
proof -
  from assms have f: "find is_move_to_done (rev (sort_key adate acts)) = Some a"
    by (simp add: done_action_def split: if_splits)
  have "sorted (map adate (sort_key adate acts))" by simp
  from find_rev_sorted_greatest [OF this f]
  have a: "is_move_to_done a" "a \<in> set acts"
    and le: "\<forall>b \<in> set acts. is_move_to_done b \<longrightarrow> adate b \<le> adate a"
    by auto
  have "Max (adate ` {x \<in> set acts. is_move_to_done x}) = adate a"
    by (rule Max_eqI) (use a le in auto)
  with a show ?thesis by simp
qed

lemma done_action_None:
  "done_action acts = None \<longleftrightarrow> {x \<in> set acts. is_move_to_done x} = {}"
  by (auto simp: done_action_def find_None_iff)

lemma parse_opt_Inr:
  "parse_opt fromiso v = Inr d \<longleftrightarrow>
     (case v of None \<Rightarrow> d = None | Some s \<Rightarrow> d \<noteq> None \<and> parse_date fromiso s = Inr (the d))"
  by (cases v; cases "parse_date fromiso (the v)"; cases d) (auto simp: parse_opt_def)

lemma derive_card_list_name:
  assumes "derive_card fromiso now ld md c = Inr r"
  shows "list_name r = (case idList c of None \<Rightarrow> Desconhecida | Some i \<Rightarrow> dict_get ld i Desconhecida)"
  using assms by (auto simp: derive_card_def Let_def ebind_Inr_iff)

lemma derive_card_created:
  assumes "derive_card fromiso now ld md c = Inr r"
  shows "(let M = {a \<in> set (actions c). atype a = ''createCard''} in
       (M \<noteq> {} \<longrightarrow> created_date r \<noteq> None \<and>
          parse_date fromiso (Min (adate ` M)) = Inr (the (created_date r))) \<and>
       (M = {} \<longrightarrow> (case truthy (dateLastActivity c) of
            None \<Rightarrow> created_date r = None
          | Some s \<Rightarrow> created_date r \<noteq> None \<and> parse_date fromiso s = Inr (the (created_date r)))))"
proof (cases "creation_action (actions c)")
  case None
  then have M: "{a \<in> set (actions c). atype a = ''createCard''} = {}"
    by (simp add: creation_action_None)
  from assms None have "parse_opt fromiso (truthy (dateLastActivity c)) = Inr (created_date r)"
    by (auto simp: derive_card_def Let_def ebind_Inr_iff parse_opt_def)
  then show ?thesis using M by (simp add: parse_opt_Inr Let_def)
next
  case (Some a)
  from creation_action_Some [OF Some]
  have M: "a \<in> {a \<in> set (actions c). atype a = ''createCard''}"
    and m: "adate a = Min (adate ` {x \<in> set (actions c). atype x = ''createCard''})" by auto
  from assms Some have "parse_opt fromiso (Some (adate a)) = Inr (created_date r)"
    by (auto simp: derive_card_def Let_def ebind_Inr_iff parse_opt_def split: sum.splits)
  then show ?thesis using M m by (auto simp: parse_opt_Inr Let_def)
qed

lemma derive_card_completed:
  assumes "derive_card fromiso now ld md c = Inr r"
    and "lower (strip (list_name r)) = concluido"
  shows "(let M = {a \<in> set (actions c). is_move_to_done a} in
       (M \<noteq> {} \<longrightarrow> completed_date r \<noteq> None \<and>
          parse_date fromiso (Max (adate ` M)) = Inr (the (completed_date r))) \<and>
       (M = {} \<longrightarrow> (case truthy (dateLastActivity c) of
            None \<Rightarrow> completed_date r = None
          | Some s \<Rightarrow> completed_date r \<noteq> None \<and> parse_date fromiso s = Inr (the (completed_date r)))))"
proof (cases "done_action (actions c)")
  case None
  then have M: "{a \<in> set (actions c). is_move_to_done a} = {}"
    by (simp add: done_action_None)
  from assms None have "parse_opt fromiso (truthy (dateLastActivity c)) = Inr (completed_date r)"
    by (auto simp: derive_card_def Let_def ebind_Inr_iff parse_opt_def split: if_splits)
  then show ?thesis using M by (simp add: parse_opt_Inr Let_def)
next
  case (Some a)
  from done_action_Some [OF Some]
  have M: "a \<in> {a \<in> set (actions c). is_move_to_done a}"
    and m: "adate a = Max (adate ` {x \<in> set (actions c). is_move_to_done x})" by auto
  from assms Some have "parse_opt fromiso (Some (adate a)) = Inr (completed_date r)"
    by (auto simp: derive_card_def Let_def ebind_Inr_iff parse_opt_def split: sum.splits if_splits)
  then show ?thesis using M m by (auto simp: parse_opt_Inr Let_def)
qed

lemma derive_done_twice:
  "derive_card trello_fromisoformat (clock_at feb1) (dict_of lists0) (dict_of members0) card_done_twice
     = Inr row_done_twice"
  by code_simp

lemma derive_update_only:
  "derive_card trello_fromisoformat (clock_at feb1) (dict_of lists0) (dict_of members0) card_update_only
     = Inr row_update_only"
  by code_simp

lemma derive_no_actions:
  "derive_card trello_fromisoformat (clock_at feb1) (dict_of lists0) (dict_of members0) card_no_actions
     = Inr row_no_actions"
  by code_simp

lemma DataProcessor_team:
  "DataProcessor trello_fromisoformat (clock_at feb1) board_team = Inr proc_team"
proof -
  have "\<not> closed card_done_twice" "\<not> closed card_update_only" "\<not> closed card_no_actions"
    "closed card_archived"
    by (simp_all add: card_done_twice_def card_update_only_def card_no_actions_def card_archived_def)
  then show ?thesis
    by (simp add: DataProcessor_def Let_def board_team_def create_cards_dataframe_def
        proc_team_def derive_done_twice derive_update_only derive_no_actions)
qed

lemma derive_same_format:
  "derive_card trello_fromisoformat (clock_at feb1) (dict_of lists0) (dict_of members0) card_same_format
     = Inr row_same_format"
  by code_simp

lemma DataProcessor_same_format:
  "DataProcessor trello_fromisoformat (clock_at feb1) board_same_format = Inr proc_same_format"
proof -
  have "\<not> closed card_same_format" by (simp add: card_same_format_def)
  then show ?thesis
    by (simp add: DataProcessor_def Let_def board_same_format_def create_cards_dataframe_def
        proc_same_format_def derive_same_format)
qed

lemma derive_mixed_offsets:
  "derive_card trello_fromisoformat (clock_at feb1) (dict_of lists0) (dict_of members0) card_mixed_offsets
     = Inr row_mixed_offsets"
  by code_simp

lemma DataProcessor_mixed_offsets:
  "DataProcessor trello_fromisoformat (clock_at feb1) board_mixed_offsets = Inr proc_mixed_offsets"
proof -
  have "\<not> closed card_mixed_offsets" by (simp add: card_mixed_offsets_def)
  then show ?thesis
    by (simp add: DataProcessor_def Let_def board_mixed_offsets_def create_cards_dataframe_def
        proc_mixed_offsets_def derive_mixed_offsets)
qed

text \<open>
  When the order of the date strings of the matching actions agrees with the order
  of the instants they denote, the action chosen by its date string is also the
  first, or the last, in time.
\<close>

lemma derive_card_created_earliest:
  assumes d: "derive_card fromiso now ld md c = Inr r"
    and mono: "\<forall>a \<in> {a \<in> set (actions c). atype a = ''createCard''}.
               \<forall>b \<in> {a \<in> set (actions c). atype a = ''createCard''}. \<forall>ta tb.
                 parse_date fromiso (adate a) = Inr ta \<and> parse_date fromiso (adate b) = Inr tb \<and>
                 adate a \<le> adate b \<longrightarrow> instant ta \<le> instant tb"
    and b: "b \<in> {a \<in> set (actions c). atype a = ''createCard''}"
    and tb: "parse_date fromiso (adate b) = Inr tb"
  shows "instant (the (created_date r)) \<le> instant tb"
proof -
  let ?M = "{a \<in> set (actions c). atype a = ''createCard''}"
  have fin: "finite (adate ` ?M)" by simp
  from b have ne: "adate ` ?M \<noteq> {}" by blast
  from b have "?M \<noteq> {}" by blast
  with derive_card_created [OF d]
  have p: "parse_date fromiso (Min (adate ` ?M)) = Inr (the (created_date r))"
    by (simp add: Let_def)
  from Min_in [OF fin ne] obtain a where a: "a \<in> ?M" and m: "adate a = Min (adate ` ?M)"
    by auto
  from b have "Min (adate ` ?M) \<le> adate b" by (intro Min_le [OF fin]) blast
  with m have le: "adate a \<le> adate b" by simp
  from p m have pa: "parse_date fromiso (adate a) = Inr (the (created_date r))" by simp
  show ?thesis
    by (rule mono [rule_format, OF a b]) (simp add: pa tb le)
qed

lemma derive_card_completed_latest:
  assumes d: "derive_card fromiso now ld md c = Inr r"
    and dn: "lower (strip (list_name r)) = concluido"
    and mono: "\<forall>a \<in> {a \<in> set (actions c). is_move_to_done a}.
               \<forall>b \<in> {a \<in> set (actions c). is_move_to_done a}. \<forall>ta tb.
                 parse_date fromiso (adate a) = Inr ta \<and> parse_date fromiso (adate b) = Inr tb \<and>
                 adate a \<le> adate b \<longrightarrow> instant ta \<le> instant tb"
    and b: "b \<in> {a \<in> set (actions c). is_move_to_done a}"
    and tb: "parse_date fromiso (adate b) = Inr tb"
  shows "instant tb \<le> instant (the (completed_date r))"
proof -
  let ?M = "{a \<in> set (actions c). is_move_to_done a}"
  have fin: "finite (adate ` ?M)" by simp
  from b have ne: "adate ` ?M \<noteq> {}" by blast
  from b have "?M \<noteq> {}" by blast
  with derive_card_completed [OF d dn]
  have p: "parse_date fromiso (Max (adate ` ?M)) = Inr (the (completed_date r))"
    by (simp add: Let_def)
  from Max_in [OF fin ne] obtain a where a: "a \<in> ?M" and m: "adate a = Max (adate ` ?M)"
    by auto
  from b have "adate b \<le> Max (adate ` ?M)" by (intro Max_ge [OF fin]) blast
  with m have le: "adate b \<le> adate a" by simp
  from p m have pa: "parse_date fromiso (adate a) = Inr (the (completed_date r))" by simp
  show ?thesis
    by (rule mono [rule_format, OF b a]) (simp add: pa tb le)
qed

text \<open>
  Claim C6, as the code has it. For every open card of the board and its row in the
  derived table: when the card has a \<open>createCard\<close> action, \<open>created_date\<close> is the
  parsed date of the one that comes first when the actions are sorted by their date
  strings, which is how \<open>sorted\<close> compares them. That is the earliest creation
  timestamp whenever the order of the date strings of the creation actions agrees
  with the order of the instants they denote, as it does for dates written in one
  format with one offset. When the card has no creation action, \<open>created_date\<close> is
  the parsed \<open>dateLastActivity\<close>, and it is \<open>None\<close> only when \<open>dateLastActivity\<close> is
  missing or empty too.
\<close>

theorem created_date_first_by_date_string:
  assumes "DataProcessor fromiso now td = Inr p"
  shows "list_all2 (\<lambda>c r.
     let M = {a \<in> set (actions c). atype a = ''createCard''} in
       (M \<noteq> {} \<longrightarrow> created_date r \<noteq> None \<and>
          parse_date fromiso (Min (adate ` M)) = Inr (the (created_date r))) \<and>
       ((\<forall>a \<in> M. \<forall>b \<in> M. \<forall>ta tb.
            parse_date fromiso (adate a) = Inr ta \<and> parse_date fromiso (adate b) = Inr tb \<and>
            adate a \<le> adate b \<longrightarrow> instant ta \<le> instant tb) \<longrightarrow>
        (\<forall>b \<in> M. \<forall>tb. parse_date fromiso (adate b) = Inr tb \<longrightarrow>
            instant (the (created_date r)) \<le> instant tb)) \<and>
       (M = {} \<longrightarrow> (case truthy (dateLastActivity c) of
            None \<Rightarrow> created_date r = None
          | Some s \<Rightarrow> created_date r \<noteq> None \<and> parse_date fromiso s = Inr (the (created_date r)))))
     (filter (\<lambda>c. \<not> closed c) (td_cards td)) (rows (df_cards p))"
proof (rule list_all2_mono [OF DataProcessor_rows [OF assms]])
  fix c r
  assume d: "derive_card fromiso now (dict_of (td_lists td)) (dict_of (td_members td)) c = Inr r"
  let ?M = "{a \<in> set (actions c). atype a = ''createCard''}"
  have A: "?M \<noteq> {} \<longrightarrow> created_date r \<noteq> None \<and>
          parse_date fromiso (Min (adate ` ?M)) = Inr (the (created_date r))"
    and C: "?M = {} \<longrightarrow> (case truthy (dateLastActivity c) of
            None \<Rightarrow> created_date r = None
          | Some s \<Rightarrow> created_date r \<noteq> None \<and> parse_date fromiso s = Inr (the (created_date r)))"
    using derive_card_created [OF d] unfolding Let_def by (rule conjunct1, rule conjunct2)
  have B: "(\<forall>a \<in> ?M. \<forall>b \<in> ?M. \<forall>ta tb.
            parse_date fromiso (adate a) = Inr ta \<and> parse_date fromiso (adate b) = Inr tb \<and>
            adate a \<le> adate b \<longrightarrow> instant ta \<le> instant tb) \<longrightarrow>
        (\<forall>b \<in> ?M. \<forall>tb. parse_date fromiso (adate b) = Inr tb \<longrightarrow>
            instant (the (created_date r)) \<le> instant tb)"
  proof (intro impI ballI allI)
    fix b tb
    assume mono: "\<forall>a \<in> ?M. \<forall>b \<in> ?M. \<forall>ta tb.
            parse_date fromiso (adate a) = Inr ta \<and> parse_date fromiso (adate b) = Inr tb \<and>
            adate a \<le> adate b \<longrightarrow> instant ta \<le> instant tb"
      and b: "b \<in> ?M" and tb: "parse_date fromiso (adate b) = Inr tb"
    show "instant (the (created_date r)) \<le> instant tb"
      by (rule derive_card_created_earliest [OF d mono b tb])
  qed
  show "let M = {a \<in> set (actions c). atype a = ''createCard''} in
       (M \<noteq> {} \<longrightarrow> created_date r \<noteq> None \<and>
          parse_date fromiso (Min (adate ` M)) = Inr (the (created_date r))) \<and>
       ((\<forall>a \<in> M. \<forall>b \<in> M. \<forall>ta tb.
            parse_date fromiso (adate a) = Inr ta \<and> parse_date fromiso (adate b) = Inr tb \<and>
            adate a \<le> adate b \<longrightarrow> instant ta \<le> instant tb) \<longrightarrow>
        (\<forall>b \<in> M. \<forall>tb. parse_date fromiso (adate b) = Inr tb \<longrightarrow>
            instant (the (created_date r)) \<le> instant tb)) \<and>
       (M = {} \<longrightarrow> (case truthy (dateLastActivity c) of
            None \<Rightarrow> created_date r = None
          | Some s \<Rightarrow> created_date r \<noteq> None \<and> parse_date fromiso s = Inr (the (created_date r))))"
    unfolding Let_def by (rule conjI [OF A conjI [OF B C]])
qed

theorem created_date_first_by_date_string_witness:
  "DataProcessor trello_fromisoformat (clock_at feb1) board_team = Inr proc_team
   \<and> rows (df_cards proc_team) = [row_done_twice, row_update_only, row_no_actions]
   \<and> map atype (actions card_update_only) = [''updateCard'']
   \<and> dateLastActivity card_update_only = Some ''2024-01-04T18:00:00.000Z''
   \<and> parse_date trello_fromisoformat ''2024-01-04T18:00:00.000Z'' = Inr (the (created_date row_update_only))
   \<and> DataProcessor trello_fromisoformat (clock_at feb1) board_same_format = Inr proc_same_format
   \<and> rows (df_cards proc_same_format) = [row_same_format]
   \<and> map atype (actions card_same_format) = [''updateCard'', ''updateCard'', ''createCard'', ''createCard'']
   \<and> map adate (actions card_same_format) =
        [''2024-01-05T08:00:00.000Z'', ''2024-01-05T05:00:00.000Z'',
         ''2024-01-01T07:00:00.000Z'', ''2024-01-01T03:00:00.000Z'']
   \<and> parse_date trello_fromisoformat ''2024-01-01T03:00:00.000Z'' = Inr (the (created_date row_same_format))
   \<and> parse_date trello_fromisoformat ''2024-01-01T07:00:00.000Z''
        = Inr \<lparr>wall = 1704092400000000, utcoffset = Some 0\<rparr>
   \<and> instant (the (created_date row_same_format)) \<le> instant \<lparr>wall = 1704092400000000, utcoffset = Some 0\<rparr>"
proof -
  let ?tf = trello_fromisoformat
  let ?M = "{a \<in> set (actions card_same_format). atype a = ''createCard''}"
  let ?a3 = "\<lparr>atype = ''createCard'', adate = ''2024-01-01T07:00:00.000Z'', list_after = None\<rparr>"
  let ?a4 = "\<lparr>atype = ''createCard'', adate = ''2024-01-01T03:00:00.000Z'', list_after = None\<rparr>"
  let ?t3 = "\<lparr>wall = 1704092400000000, utcoffset = Some 0\<rparr>"
  let ?t4 = "\<lparr>wall = 1704078000000000, utcoffset = Some 0\<rparr>"
  have a: "rows (df_cards proc_team) = [row_done_twice, row_update_only, row_no_actions]"
    by (simp add: proc_team_def pd_DataFrame_def)
  have b: "map atype (actions card_update_only) = [''updateCard'']"
    "dateLastActivity card_update_only = Some ''2024-01-04T18:00:00.000Z''"
    by (simp_all add: card_update_only_def)
  have c: "parse_date ?tf ''2024-01-04T18:00:00.000Z'' = Inr (the (created_date row_update_only))"
    by code_simp
  have e: "rows (df_cards proc_same_format) = [row_same_format]"
    by (simp add: proc_same_format_def pd_DataFrame_def)
  have f: "filter (\<lambda>c. \<not> closed c) (td_cards board_same_format) = [card_same_format]"
    by (simp add: board_same_format_def card_same_format_def)
  have g: "map atype (actions card_same_format) = [''updateCard'', ''updateCard'', ''createCard'', ''createCard'']"
    "map adate (actions card_same_format) =
        [''2024-01-05T08:00:00.000Z'', ''2024-01-05T05:00:00.000Z'',
         ''2024-01-01T07:00:00.000Z'', ''2024-01-01T03:00:00.000Z'']"
    by (simp_all add: card_same_format_def)
  have p3: "parse_date ?tf ''2024-01-01T07:00:00.000Z'' = Inr ?t3"
    and p4: "parse_date ?tf ''2024-01-01T03:00:00.000Z'' = Inr ?t4"
    and p4': "parse_date ?tf ''2024-01-01T03:00:00.000Z'' = Inr (the (created_date row_same_format))"
    by code_simp+
  have ord: "\<not> ''2024-01-01T07:00:00.000Z'' \<le> (''2024-01-01T03:00:00.000Z'' :: string)"
    by code_simp
  have M: "?M = {?a3, ?a4}"
    by (auto simp: card_same_format_def)
  have mono: "\<forall>a \<in> ?M. \<forall>b \<in> ?M. \<forall>ta tb.
            parse_date ?tf (adate a) = Inr ta \<and> parse_date ?tf (adate b) = Inr tb \<and>
            adate a \<le> adate b \<longrightarrow> instant ta \<le> instant tb"
    unfolding M by (auto simp: p3 p4 ord instant_def)
  have a3: "?a3 \<in> ?M" unfolding M by simp
  from created_date_first_by_date_string [OF DataProcessor_same_format]
  have "list_all2 (\<lambda>c r.
       let M = {a \<in> set (actions c). atype a = ''createCard''} in
       (M \<noteq> {} \<longrightarrow> created_date r \<noteq> None \<and>
          parse_date ?tf (Min (adate ` M)) = Inr (the (created_date r))) \<and>
       ((\<forall>a \<in> M. \<forall>b \<in> M. \<forall>ta tb.
            parse_date ?tf (adate a) = Inr ta \<and> parse_date ?tf (adate b) = Inr tb \<and>
            adate a \<le> adate b \<longrightarrow> instant ta \<le> instant tb) \<longrightarrow>
        (\<forall>b \<in> M. \<forall>tb. parse_date ?tf (adate b) = Inr tb \<longrightarrow>
            instant (the (created_date r)) \<le> instant tb)) \<and>
       (M = {} \<longrightarrow> (case truthy (dateLastActivity c) of
            None \<Rightarrow> created_date r = None
          | Some s \<Rightarrow> created_date r \<noteq> None \<and> parse_date ?tf s = Inr (the (created_date r)))))
     [card_same_format] [row_same_format]"
    unfolding e f .
  then have "(\<forall>a \<in> ?M. \<forall>b \<in> ?M. \<forall>ta tb.
            parse_date ?tf (adate a) = Inr ta \<and> parse_date ?tf (adate b) = Inr tb \<and>
            adate a \<le> adate b \<longrightarrow> instant ta \<le> instant tb) \<longrightarrow>
        (\<forall>b \<in> ?M. \<forall>tb. parse_date ?tf (adate b) = Inr tb \<longrightarrow>
            instant (the (created_date row_same_format)) \<le> instant tb)"
    unfolding list_all2_Cons Let_def by (elim conjE)
  from this [THEN mp, OF mono, rule_format, OF a3, of ?t3] p3
  have h: "instant (the (created_date row_same_format)) \<le> instant ?t3" by simp
  from DataProcessor_team a b c DataProcessor_same_format e g p4' p3 h
  show ?thesis by (intro conjI)
qed

text \<open>
  The counterexample to the claim as worded: a card with two creation actions, one
  dated \<open>2024-01-01T02:00:00.000-05:00\<close> (07:00 UTC) and one dated
  \<open>2024-01-01T03:00:00.000Z\<close>. The first has the lesser date string, so it is the
  one \<open>created_date\<close> is taken from, and the creation at 03:00 UTC is four hours
  earlier.
\<close>

theorem created_date_earliest_timestamp_counterexample:
  "DataProcessor trello_fromisoformat (clock_at feb1) board_mixed_offsets = Inr proc_mixed_offsets
   \<and> td_cards board_mixed_offsets = [card_mixed_offsets]
   \<and> rows (df_cards proc_mixed_offsets) = [row_mixed_offsets]
   \<and> map atype (actions card_mixed_offsets) = [''updateCard'', ''updateCard'', ''createCard'', ''createCard'']
   \<and> adate (actions card_mixed_offsets ! 2) = ''2024-01-01T02:00:00.000-05:00''
   \<and> adate (actions card_mixed_offsets ! 3) = ''2024-01-01T03:00:00.000Z''
   \<and> parse_date trello_fromisoformat ''2024-01-01T02:00:00.000-05:00''
        = Inr (the (created_date row_mixed_offsets))
   \<and> instant (the (created_date row_mixed_offsets)) = 1704092400000000
   \<and> parse_date trello_fromisoformat ''2024-01-01T03:00:00.000Z''
        = Inr \<lparr>wall = 1704078000000000, utcoffset = Some 0\<rparr>
   \<and> instant \<lparr>wall = 1704078000000000, utcoffset = Some 0\<rparr> = 1704078000000000
   \<and> instant \<lparr>wall = 1704078000000000, utcoffset = Some 0\<rparr>
        < instant (the (created_date row_mixed_offsets))"
proof -
  have a: "td_cards board_mixed_offsets = [card_mixed_offsets]"
    "rows (df_cards proc_mixed_offsets) = [row_mixed_offsets]"
    by (simp_all add: board_mixed_offsets_def proc_mixed_offsets_def pd_DataFrame_def)
  have b: "map atype (actions card_mixed_offsets) = [''updateCard'', ''updateCard'', ''createCard'', ''createCard'']"
    "adate (actions card_mixed_offsets ! 2) = ''2024-01-01T02:00:00.000-05:00''"
    "adate (actions card_mixed_offsets ! 3) = ''2024-01-01T03:00:00.000Z''"
    by (simp_all add: card_mixed_offsets_def)
  have c: "parse_date trello_fromisoformat ''2024-01-01T02:00:00.000-05:00''
        = Inr (the (created_date row_mixed_offsets))"
    "parse_date trello_fromisoformat ''2024-01-01T03:00:00.000Z''
        = Inr \<lparr>wall = 1704078000000000, utcoffset = Some 0\<rparr>"
    by code_simp+
  have d: "instant (the (created_date row_mixed_offsets)) = 1704092400000000"
    "instant \<lparr>wall = 1704078000000000, utcoffset = Some 0\<rparr> = 1704078000000000"
    "instant \<lparr>wall = 1704078000000000, utcoffset = Some 0\<rparr>
        < instant (the (created_date row_mixed_offsets))"
    by (simp_all add: instant_def row_mixed_offsets_def)
  from DataProcessor_mixed_offsets a b c d show ?thesis by (intro conjI)
qed

text \<open>
  Claim C5, as the code has it. For every open card whose current list name,
  stripped and lower-cased, is the done-list name: when the card has list moves into
  the done list (an \<open>updateCard\<close> whose \<open>listAfter\<close> name, stripped and lower-cased,
  is the done-list name), \<open>completed_date\<close> is the parsed date of the one that comes
  last when the actions are sorted by their date strings (the first in the descending
  scan). That is the most recent such move whenever the order of the date strings of
  these moves agrees with the order of the instants they denote, as it does for dates
  written in one format with one offset. When the card has no such move,
  \<open>completed_date\<close> is the parsed \<open>dateLastActivity\<close> (\<open>None\<close> when that is missing or
  empty). The list name of the row is the name the card's \<open>idList\<close> resolves to.
\<close>

theorem completed_date_last_by_date_string:
  assumes "DataProcessor fromiso now td = Inr p"
  shows "list_all2 (\<lambda>c r.
     list_name r = (case idList c of None \<Rightarrow> Desconhecida
                    | Some i \<Rightarrow> dict_get (dict_of (td_lists td)) i Desconhecida) \<and>
     (lower (strip (list_name r)) = concluido \<longrightarrow>
       (let M = {a \<in> set (actions c). is_move_to_done a} in
         (M \<noteq> {} \<longrightarrow> completed_date r \<noteq> None \<and>
            parse_date fromiso (Max (adate ` M)) = Inr (the (completed_date r))) \<and>
         ((\<forall>a \<in> M. \<forall>b \<in> M. \<forall>ta tb.
              parse_date fromiso (adate a) = Inr ta \<and> parse_date fromiso (adate b) = Inr tb \<and>
              adate a \<le> adate b \<longrightarrow> instant ta \<le> instant tb) \<longrightarrow>
          (\<forall>b \<in> M. \<forall>tb. parse_date fromiso (adate b) = Inr tb \<longrightarrow>
              instant tb \<le> instant (the (completed_date r)))) \<and>
         (M = {} \<longrightarrow> (case truthy (dateLastActivity c) of
              None \<Rightarrow> completed_date r = None
            | Some s \<Rightarrow> completed_date r \<noteq> None \<and>
                parse_date fromiso s = Inr (the (completed_date r)))))))
     (filter (\<lambda>c. \<not> closed c) (td_cards td)) (rows (df_cards p))"
proof (rule list_all2_mono [OF DataProcessor_rows [OF assms]])
  fix c r
  assume d: "derive_card fromiso now (dict_of (td_lists td)) (dict_of (td_members td)) c = Inr r"
  let ?M = "{a \<in> set (actions c). is_move_to_done a}"
  have N: "list_name r = (case idList c of None \<Rightarrow> Desconhecida
                    | Some i \<Rightarrow> dict_get (dict_of (td_lists td)) i Desconhecida)"
    by (rule derive_card_list_name [OF d])
  have R: "lower (strip (list_name r)) = concluido \<longrightarrow>
       (?M \<noteq> {} \<longrightarrow> completed_date r \<noteq> None \<and>
            parse_date fromiso (Max (adate ` ?M)) = Inr (the (completed_date r))) \<and>
         ((\<forall>a \<in> ?M. \<forall>b \<in> ?M. \<forall>ta tb.
              parse_date fromiso (adate a) = Inr ta \<and> parse_date fromiso (adate b) = Inr tb \<and>
              adate a \<le> adate b \<longrightarrow> instant ta \<le> instant tb) \<longrightarrow>
          (\<forall>b \<in> ?M. \<forall>tb. parse_date fromiso (adate b) = Inr tb \<longrightarrow>
              instant tb \<le> instant (the (completed_date r)))) \<and>
         (?M = {} \<longrightarrow> (case truthy (dateLastActivity c) of
              None \<Rightarrow> completed_date r = None
            | Some s \<Rightarrow> completed_date r \<noteq> None \<and>
                parse_date fromiso s = Inr (the (completed_date r))))"
  proof (rule impI)
    assume dn: "lower (strip (list_name r)) = concluido"
    have A: "?M \<noteq> {} \<longrightarrow> completed_date r \<noteq> None \<and>
            parse_date fromiso (Max (adate ` ?M)) = Inr (the (completed_date r))"
      and C: "?M = {} \<longrightarrow> (case truthy (dateLastActivity c) of
              None \<Rightarrow> completed_date r = None
            | Some s \<Rightarrow> completed_date r \<noteq> None \<and>
                parse_date fromiso s = Inr (the (completed_date r)))"
      using derive_card_completed [OF d dn] unfolding Let_def by (rule conjunct1, rule conjunct2)
    have B: "(\<forall>a \<in> ?M. \<forall>b \<in> ?M. \<forall>ta tb.
              parse_date fromiso (adate a) = Inr ta \<and> parse_date fromiso (adate b) = Inr tb \<and>
              adate a \<le> adate b \<longrightarrow> instant ta \<le> instant tb) \<longrightarrow>
          (\<forall>b \<in> ?M. \<forall>tb. parse_date fromiso (adate b) = Inr tb \<longrightarrow>
              instant tb \<le> instant (the (completed_date r)))"
    proof (intro impI ballI allI)
      fix b tb
      assume mono: "\<forall>a \<in> ?M. \<forall>b \<in> ?M. \<forall>ta tb.
              parse_date fromiso (adate a) = Inr ta \<and> parse_date fromiso (adate b) = Inr tb \<and>
              adate a \<le> adate b \<longrightarrow> instant ta \<le> instant tb"
        and b: "b \<in> ?M" and tb: "parse_date fromiso (adate b) = Inr tb"
      show "instant tb \<le> instant (the (completed_date r))"
        by (rule derive_card_completed_latest [OF d dn mono b tb])
    qed
    show "(?M \<noteq> {} \<longrightarrow> completed_date r \<noteq> None \<and>
            parse_date fromiso (Max (adate ` ?M)) = Inr (the (completed_date r))) \<and>
         ((\<forall>a \<in> ?M. \<forall>b \<in> ?M. \<forall>ta tb.
              parse_date fromiso (adate a) = Inr ta \<and> parse_date fromiso (adate b) = Inr tb \<and>
              adate a \<le> adate b \<longrightarrow> instant ta \<le> instant tb) \<longrightarrow>
          (\<forall>b \<in> ?M. \<forall>tb. parse_date fromiso (adate b) = Inr tb \<longrightarrow>
              instant tb \<le> instant (the (completed_date r)))) \<and>
         (?M = {} \<longrightarrow> (case truthy (dateLastActivity c) of
              None \<Rightarrow> completed_date r = None
            | Some s \<Rightarrow> completed_date r \<noteq> None \<and>
                parse_date fromiso s = Inr (the (completed_date r))))"
      by (rule conjI [OF A conjI [OF B C]])
  qed
  show "list_name r = (case idList c of None \<Rightarrow> Desconhecida
                    | Some i \<Rightarrow> dict_get (dict_of (td_lists td)) i Desconhecida) \<and>
     (lower (strip (list_name r)) = concluido \<longrightarrow>
       (let M = {a \<in> set (actions c). is_move_to_done a} in
         (M \<noteq> {} \<longrightarrow> completed_date r \<noteq> None \<and>
            parse_date fromiso (Max (adate ` M)) = Inr (the (completed_date r))) \<and>
         ((\<forall>a \<in> M. \<forall>b \<in> M. \<forall>ta tb.
              parse_date fromiso (adate a) = Inr ta \<and> parse_date fromiso (adate b) = Inr tb \<and>
              adate a \<le> adate b \<longrightarrow> instant ta \<le> instant tb) \<longrightarrow>
          (\<forall>b \<in> M. \<forall>tb. parse_date fromiso (adate b) = Inr tb \<longrightarrow>
              instant tb \<le> instant (the (completed_date r)))) \<and>
         (M = {} \<longrightarrow> (case truthy (dateLastActivity c) of
              None \<Rightarrow> completed_date r = None
            | Some s \<Rightarrow> completed_date r \<noteq> None \<and>
                parse_date fromiso s = Inr (the (completed_date r))))))"
    unfolding Let_def by (rule conjI [OF N R])
qed

theorem completed_date_last_by_date_string_witness:
  "DataProcessor trello_fromisoformat (clock_at feb1) board_team = Inr proc_team
   \<and> rows (df_cards proc_team) = [row_done_twice, row_update_only, row_no_actions]
   \<and> lower (strip (list_name row_no_actions)) = concluido
   \<and> actions card_no_actions = []
   \<and> dateLastActivity card_no_actions = Some ''2024-01-02T06:00:00.000Z''
   \<and> parse_date trello_fromisoformat ''2024-01-02T06:00:00.000Z'' = Inr (the (completed_date row_no_actions))
   \<and> DataProcessor trello_fromisoformat (clock_at feb1) board_same_format = Inr proc_same_format
   \<and> rows (df_cards proc_same_format) = [row_same_format]
   \<and> lower (strip (list_name row_same_format)) = concluido
   \<and> map is_move_to_done (actions card_same_format) = [True, True, False, False]
   \<and> map adate (actions card_same_format) =
        [''2024-01-05T08:00:00.000Z'', ''2024-01-05T05:00:00.000Z'',
         ''2024-01-01T07:00:00.000Z'', ''2024-01-01T03:00:00.000Z'']
   \<and> parse_date trello_fromisoformat ''2024-01-05T08:00:00.000Z'' = Inr (the (completed_date row_same_format))
   \<and> parse_date trello_fromisoformat ''2024-01-05T05:00:00.000Z''
        = Inr \<lparr>wall = 1704430800000000, utcoffset = Some 0\<rparr>
   \<and> instant \<lparr>wall = 1704430800000000, utcoffset = Some 0\<rparr> \<le> instant (the (completed_date row_same_format))"
proof -
  let ?tf = trello_fromisoformat
  let ?M = "{a \<in> set (actions card_same_format). is_move_to_done a}"
  let ?a1 = "\<lparr>atype = ''updateCard'', adate = ''2024-01-05T08:00:00.000Z'',
         list_after = Some (''Conclu'' @ [CHR 0xED] @ ''do'')\<rparr>"
  let ?a2 = "\<lparr>atype = ''updateCard'', adate = ''2024-01-05T05:00:00.000Z'',
         list_after = Some (''Conclu'' @ [CHR 0xED] @ ''do'')\<rparr>"
  let ?a3 = "\<lparr>atype = ''createCard'', adate = ''2024-01-01T07:00:00.000Z'', list_after = None\<rparr>"
  let ?a4 = "\<lparr>atype = ''createCard'', adate = ''2024-01-01T03:00:00.000Z'', list_after = None\<rparr>"
  let ?t1 = "\<lparr>wall = 1704441600000000, utcoffset = Some 0\<rparr>"
  let ?t2 = "\<lparr>wall = 1704430800000000, utcoffset = Some 0\<rparr>"
  have a: "rows (df_cards proc_team) = [row_done_twice, row_update_only, row_no_actions]"
    by (simp add: proc_team_def pd_DataFrame_def)
  have b: "actions card_no_actions = []"
    "dateLastActivity card_no_actions = Some ''2024-01-02T06:00:00.000Z''"
    by (simp_all add: card_no_actions_def)
  have c: "lower (strip (list_name row_no_actions)) = concluido"
    "parse_date ?tf ''2024-01-02T06:00:00.000Z'' = Inr (the (completed_date row_no_actions))"
    by code_simp+
  have e: "rows (df_cards proc_same_format) = [row_same_format]"
    by (simp add: proc_same_format_def pd_DataFrame_def)
  have f: "filter (\<lambda>c. \<not> closed c) (td_cards board_same_format) = [card_same_format]"
    by (simp add: board_same_format_def card_same_format_def)
  have dn: "lower (strip (list_name row_same_format)) = concluido"
    by code_simp
  have g: "map is_move_to_done (actions card_same_format) = [True, True, False, False]"
    by code_simp
  have g': "map adate (actions card_same_format) =
        [''2024-01-05T08:00:00.000Z'', ''2024-01-05T05:00:00.000Z'',
         ''2024-01-01T07:00:00.000Z'', ''2024-01-01T03:00:00.000Z'']"
    by (simp add: card_same_format_def)
  have p1: "parse_date ?tf ''2024-01-05T08:00:00.000Z'' = Inr ?t1"
    and p2: "parse_date ?tf ''2024-01-05T05:00:00.000Z'' = Inr ?t2"
    and p1': "parse_date ?tf ''2024-01-05T08:00:00.000Z'' = Inr (the (completed_date row_same_format))"
    by code_simp+
  have ord: "\<not> ''2024-01-05T08:00:00.000Z'' \<le> (''2024-01-05T05:00:00.000Z'' :: string)"
    by code_simp
  have acts: "actions card_same_format = [?a1, ?a2, ?a3, ?a4]"
    by (simp add: card_same_format_def)
  have "is_move_to_done ?a1" "is_move_to_done ?a2" "\<not> is_move_to_done ?a3" "\<not> is_move_to_done ?a4"
    using g unfolding acts by simp_all
  then have M: "?M = {?a1, ?a2}"
    unfolding acts by auto
  have mono: "\<forall>a \<in> ?M. \<forall>b \<in> ?M. \<forall>ta tb.
            parse_date ?tf (adate a) = Inr ta \<and> parse_date ?tf (adate b) = Inr tb \<and>
            adate a \<le> adate b \<longrightarrow> instant ta \<le> instant tb"
    unfolding M by (auto simp: p1 p2 ord instant_def)
  have a2: "?a2 \<in> ?M" unfolding M by simp
  from completed_date_last_by_date_string [OF DataProcessor_same_format]
  have "list_all2 (\<lambda>c r.
     list_name r = (case idList c of None \<Rightarrow> Desconhecida
                    | Some i \<Rightarrow> dict_get (dict_of (td_lists board_same_format)) i Desconhecida) \<and>
     (lower (strip (list_name r)) = concluido \<longrightarrow>
       (let M = {a \<in> set (actions c). is_move_to_done a} in
         (M \<noteq> {} \<longrightarrow> completed_date r \<noteq> None \<and>
            parse_date ?tf (Max (adate ` M)) = Inr (the (completed_date r))) \<and>
         ((\<forall>a \<in> M. \<forall>b \<in> M. \<forall>ta tb.
              parse_date ?tf (adate a) = Inr ta \<and> parse_date ?tf (adate b) = Inr tb \<and>
              adate a \<le> adate b \<longrightarrow> instant ta \<le> instant tb) \<longrightarrow>
          (\<forall>b \<in> M. \<forall>tb. parse_date ?tf (adate b) = Inr tb \<longrightarrow>
              instant tb \<le> instant (the (completed_date r)))) \<and>
         (M = {} \<longrightarrow> (case truthy (dateLastActivity c) of
              None \<Rightarrow> completed_date r = None
            | Some s \<Rightarrow> completed_date r \<noteq> None \<and>
                parse_date ?tf s = Inr (the (completed_date r)))))))
     [card_same_format] [row_same_format]"
    unfolding e f .
  then have "lower (strip (list_name row_same_format)) = concluido \<longrightarrow>
       (?M \<noteq> {} \<longrightarrow> completed_date row_same_format \<noteq> None \<and>
            parse_date ?tf (Max (adate ` ?M)) = Inr (the (completed_date row_same_format))) \<and>
         ((\<forall>a \<in> ?M. \<forall>b \<in> ?M. \<forall>ta tb.
              parse_date ?tf (adate a) = Inr ta \<and> parse_date ?tf (adate b) = Inr tb \<and>
              adate a \<le> adate b \<longrightarrow> instant ta \<le> instant tb) \<longrightarrow>
          (\<forall>b \<in> ?M. \<forall>tb. parse_date ?tf (adate b) = Inr tb \<longrightarrow>
              instant tb \<le> instant (the (completed_date row_same_format)))) \<and>
         (?M = {} \<longrightarrow> (case truthy (dateLastActivity card_same_format) of
              None \<Rightarrow> completed_date row_same_format = None
            | Some s \<Rightarrow> completed_date row_same_format \<noteq> None \<and>
                parse_date ?tf s = Inr (the (completed_date row_same_format))))"
    unfolding list_all2_Cons Let_def by (elim conjE)
  from this [THEN mp, OF dn, THEN conjunct2, THEN conjunct1, THEN mp, OF mono, rule_format, OF a2, of ?t2] p2
  have h: "instant ?t2 \<le> instant (the (completed_date row_same_format))" by simp
  from DataProcessor_team a c(1) b c(2) DataProcessor_same_format e dn g g' p1' p2 h
  show ?thesis by (intro conjI)
qed

text \<open>
  The counterexample to the claim as worded: a card in the done list with two moves
  into it, one dated \<open>2024-01-05T08:00:00.000Z\<close> and one dated
  \<open>2024-01-05T10:00:00.000+05:00\<close> (05:00 UTC). The second has the greater date
  string, so it is the one \<open>completed_date\<close> is taken from, and the move at 08:00 UTC
  is three hours more recent.
\<close>

theorem completed_date_most_recent_counterexample:
  "DataProcessor trello_fromisoformat (clock_at feb1) board_mixed_offsets = Inr proc_mixed_offsets
   \<and> td_cards board_mixed_offsets = [card_mixed_offsets]
   \<and> rows (df_cards proc_mixed_offsets) = [row_mixed_offsets]
   \<and> lower (strip (list_name row_mixed_offsets)) = concluido
   \<and> map is_move_to_done (actions card_mixed_offsets) = [True, True, False, False]
   \<and> adate (actions card_mixed_offsets ! 0) = ''2024-01-05T08:00:00.000Z''
   \<and> adate (actions card_mixed_offsets ! 1) = ''2024-01-05T10:00:00.000+05:00''
   \<and> parse_date trello_fromisoformat ''2024-01-05T10:00:00.000+05:00''
        = Inr (the (completed_date row_mixed_offsets))
   \<and> instant (the (completed_date row_mixed_offsets)) = 1704430800000000
   \<and> parse_date trello_fromisoformat ''2024-01-05T08:00:00.000Z''
        = Inr \<lparr>wall = 1704441600000000, utcoffset = Some 0\<rparr>
   \<and> instant \<lparr>wall = 1704441600000000, utcoffset = Some 0\<rparr> = 1704441600000000
   \<and> instant (the (completed_date row_mixed_offsets))
        < instant \<lparr>wall = 1704441600000000, utcoffset = Some 0\<rparr>"
proof -
  have a: "td_cards board_mixed_offsets = [card_mixed_offsets]"
    "rows (df_cards proc_mixed_offsets) = [row_mixed_offsets]"
    by (simp_all add: board_mixed_offsets_def proc_mixed_offsets_def pd_DataFrame_def)
  have b: "adate (actions card_mixed_offsets ! 0) = ''2024-01-05T08:00:00.000Z''"
    "adate (actions card_mixed_offsets ! 1) = ''2024-01-05T10:00:00.000+05:00''"
    by (simp_all add: card_mixed_offsets_def)
  have c: "lower (strip (list_name row_mixed_offsets)) = concluido"
    "map is_move_to_done (actions card_mixed_offsets) = [True, True, False, False]"
    "parse_date trello_fromisoformat ''2024-01-05T10:00:00.000+05:00''
        = Inr (the (completed_date row_mixed_offsets))"
    "parse_date trello_fromisoformat ''2024-01-05T08:00:00.000Z''
        = Inr \<lparr>wall = 1704441600000000, utcoffset = Some 0\<rparr>"
    by code_simp+
  have d: "instant (the (completed_date row_mixed_offsets)) = 1704430800000000"
    "instant \<lparr>wall = 1704441600000000, utcoffset = Some 0\<rparr> = 1704441600000000"
    "instant (the (completed_date row_mixed_offsets))
        < instant \<lparr>wall = 1704441600000000, utcoffset = Some 0\<rparr>"
    by (simp_all add: instant_def row_mixed_offsets_def)
  from DataProcessor_mixed_offsets a c(1,2) b c(3) d(1) c(4) d(2,3) show ?thesis by (intro conjI)
qed

section \<open>Per-member tables\<close>

lemma explode_members_created: "x \<in> set (explode_members row) \<Longrightarrow> mr_created x = 1"
  by (auto simp: explode_members_def Let_def split: if_splits)

lemma sum_list_all_one:
  "\<forall>x \<in> set xs. f x = (1::nat) \<Longrightarrow> sum_list (map f xs) = length xs"
  by (induction xs) auto

lemma groupby_member_sum_created:
  assumes "\<forall>x \<in> set xs. mr_created x = 1" and "g \<in> set (groupby_member_sum xs)"
  shows "1 \<le> mr_created g"
proof -
  from assms(2) obtain k where k: "k \<in> mr_member ` set xs"
    and g: "mr_created g = sum_list (map mr_created (filter (\<lambda>r. mr_member r = k) xs))"
    unfolding groupby_member_sum_def by force
  from assms(1) have "sum_list (map mr_created (filter (\<lambda>r. mr_member r = k) xs))
      = length (filter (\<lambda>r. mr_member r = k) xs)"
    by (intro sum_list_all_one) simp
  moreover from k have "filter (\<lambda>r. mr_member r = k) xs \<noteq> []"
    by (auto simp: filter_empty_conv)
  ultimately show ?thesis using g by (simp add: Suc_le_eq)
qed

lemma get_cards_by_member_created:
  assumes "get_cards_by_member p s e = Inr ms" and "g \<in> set ms"
  shows "1 \<le> mr_created g"
proof -
  from assms(1) obtain df :: "derived_card dataframe" where
    ms: "(let mc = concat (map explode_members (rows df)) in
           if mc = [] then Inr []
           else Inr (sort_key (\<lambda>r. - int (mr_created r)) (groupby_member_sum mc))) = (Inr ms :: error + member_row list)"
    unfolding get_cards_by_member_def ebind_Inr_iff by blast
  let ?mc = "concat (map explode_members (rows df))"
  have one: "\<forall>x \<in> set ?mc. mr_created x = 1"
    by (auto dest: explode_members_created)
  have "g \<in> set (groupby_member_sum ?mc)"
  proof (cases "?mc = []")
    case True
    with ms have "ms = []" by (simp only: Let_def if_True if_P sum.inject)
    with assms(2) show ?thesis by simp
  next
    case False
    with ms have "ms = sort_key (\<lambda>r. - int (mr_created r)) (groupby_member_sum ?mc)"
      by (simp only: Let_def if_False if_not_P sum.inject)
    with assms(2) show ?thesis by simp
  qed
  with one show ?thesis by (rule groupby_member_sum_created)
qed

text \<open>
  Claim C10. Every row of the productivity ranking has \<open>created\<close> at least 1: a row
  is a group of per-member appearances, each contributing 1. Hence the divisor of
  \<open>completed / created * 100\<close> is never zero, and the rate of every row is the
  value of that expression at the row's counts, not the inf or NaN of a zero divisor.
\<close>

theorem ranking_created_at_least_one:
  assumes "get_productivity_ranking p start_date end_date = Inr ranking"
    and "r \<in> set ranking"
  shows "1 \<le> mr_created r \<and> completion_rate r \<noteq> Inf_or_NaN \<and>
         completion_rate r = Rate (mr_completed r) (mr_created r)"
proof -
  from assms obtain ms g where ms: "get_cards_by_member p start_date end_date = Inr ms"
    and g: "g \<in> set ms" and r: "r = with_completion_rate g"
    by (auto simp: get_productivity_ranking_def ebind_Inr_iff split: if_splits)
  from get_cards_by_member_created [OF ms g] have "1 \<le> mr_created g" .
  with r show ?thesis by (simp add: with_completion_rate_def)
qed

lemma ranking_team_eval:
  "get_productivity_ranking proc_team jan1_start jan31_end = Inr ranking_team"
  by code_simp

theorem ranking_created_at_least_one_witness:
  "get_productivity_ranking proc_team jan1_start jan31_end = Inr ranking_team
   \<and> ranking_team ! 3 \<in> set ranking_team
   \<and> mr_member (ranking_team ! 3) = Sem_atribuicao
   \<and> 1 \<le> mr_created (ranking_team ! 3)
   \<and> completion_rate (ranking_team ! 3) \<noteq> Inf_or_NaN
   \<and> completion_rate (ranking_team ! 3)
       = Rate (mr_completed (ranking_team ! 3)) (mr_created (ranking_team ! 3))"
proof -
  have h: "ranking_team ! 3 \<in> set ranking_team"
    by (simp add: ranking_team_def)
  have m: "mr_member (ranking_team ! 3) = Sem_atribuicao"
    by (simp add: ranking_team_def)
  from ranking_created_at_least_one [OF ranking_team_eval h] ranking_team_eval h m
  show ?thesis by blast
qed

section \<open>A table without rows\<close>

lemma DataProcessor_empty:
  "DataProcessor trello_fromisoformat (clock_at feb1) board_empty = Inr proc_empty"
  by (simp add: DataProcessor_def Let_def board_empty_def create_cards_dataframe_def proc_empty_def)

lemma DataProcessor_archived:
  "DataProcessor trello_fromisoformat (clock_at feb1) board_archived = Inr proc_archived"
proof -
  have "closed card_archived" by (simp add: card_archived_def)
  then show ?thesis
    by (simp add: DataProcessor_def Let_def board_archived_def create_cards_dataframe_def
        proc_archived_def)
qed

lemma column_no_columns: "\<not> has_columns df \<Longrightarrow> column name f df = Inl (KeyError name)"
  by (simp add: column_def)

text \<open>
  Claim C4, at the empty card list. \<open>pd.DataFrame([])\<close> has no columns, so the
  first column access of every metric raises \<open>KeyError\<close>: none of the nine
  operations returns an empty or zero result.
\<close>

theorem empty_board_every_metric_raises:
  "DataProcessor trello_fromisoformat (clock_at feb1) board_empty = Inr proc_empty
   \<and> td_cards board_empty = []
   \<and> get_cards_created_count proc_empty jan1_start jan31_end = Inl (KeyError ''created_date'')
   \<and> get_cards_completed_count proc_empty jan1_start jan31_end = Inl (KeyError ''completed_date'')
   \<and> get_cards_in_progress_count proc_empty = Inl (KeyError ''list'')
   \<and> get_overdue_cards proc_empty = Inl (KeyError ''is_overdue'')
   \<and> get_cards_timeline proc_empty jan1_start jan31_end = Inl (KeyError ''created_date'')
   \<and> get_cards_by_member proc_empty jan1_start jan31_end = Inl (KeyError ''created_date'')
   \<and> get_cards_by_label proc_empty jan1_start jan31_end = Inl (KeyError ''created_date'')
   \<and> get_average_completion_time proc_empty jan1_start jan31_end = Inl (KeyError ''completed_date'')
   \<and> get_productivity_ranking proc_empty jan1_start jan31_end = Inl (KeyError ''created_date'')"
proof -
  have nc: "\<not> has_columns (df_cards proc_empty)"
    by (simp add: proc_empty_def pd_DataFrame_def)
  have f: "filter_by_date_range proc_empty jan1_start jan31_end = Inl (KeyError ''created_date'')"
    using nc by (simp add: filter_by_date_range_def Let_def column_no_columns)
  have m: "get_cards_by_member proc_empty jan1_start jan31_end = Inl (KeyError ''created_date'')"
    using f by (simp add: get_cards_by_member_def)
  obtain days where d: "date_range (localize_if_naive jan1_start) (localize_if_naive jan31_end) = Inr days"
    by (cases "date_range (localize_if_naive jan1_start) (localize_if_naive jan31_end)")
       (simp_all add: date_range_def localize_if_naive_def jan1_start_def jan31_end_def)
  have "td_cards board_empty = []" by (simp add: board_empty_def)
  moreover have "get_cards_created_count proc_empty jan1_start jan31_end = Inl (KeyError ''created_date'')"
    using f by (simp add: get_cards_created_count_def)
  moreover have "get_cards_completed_count proc_empty jan1_start jan31_end = Inl (KeyError ''completed_date'')"
    using nc by (simp add: get_cards_completed_count_def Let_def column_no_columns)
  moreover have "get_cards_in_progress_count proc_empty = Inl (KeyError ''list'')"
    using nc by (simp add: get_cards_in_progress_count_def Let_def column_no_columns)
  moreover have "get_overdue_cards proc_empty = Inl (KeyError ''is_overdue'')"
    using nc by (simp add: get_overdue_cards_def Let_def column_no_columns)
  moreover have "get_cards_timeline proc_empty jan1_start jan31_end = Inl (KeyError ''created_date'')"
    using nc d by (simp add: get_cards_timeline_def Let_def column_no_columns)
  moreover have "get_cards_by_label proc_empty jan1_start jan31_end = Inl (KeyError ''created_date'')"
    using f by (simp add: get_cards_by_label_def)
  moreover have "get_average_completion_time proc_empty jan1_start jan31_end = Inl (KeyError ''completed_date'')"
    using nc by (simp add: get_average_completion_time_def Let_def column_no_columns)
  moreover have "get_productivity_ranking proc_empty jan1_start jan31_end = Inl (KeyError ''created_date'')"
    using m by (simp add: get_productivity_ranking_def)
  ultimately show ?thesis using DataProcessor_empty m by blast
qed

text \<open>
  Claim C8, at a board whose only card is archived: no card has a completion date
  in the range, and \<open>get_average_completion_time\<close> raises \<open>KeyError\<close> instead of
  returning 0. The check \<open>len(df_completed) == 0\<close> that returns \<open>0.0\<close> is never reached.
\<close>

theorem average_completion_time_raises_without_rows:
  "DataProcessor trello_fromisoformat (clock_at feb1) board_archived = Inr proc_archived
   \<and> rows (df_cards proc_archived) = []
   \<and> get_average_completion_time proc_archived jan1_start jan31_end = Inl (KeyError ''completed_date'')"
proof -
  have nc: "\<not> has_columns (df_cards proc_archived)" "rows (df_cards proc_archived) = []"
    by (simp_all add: proc_archived_def pd_DataFrame_def)
  then have "get_average_completion_time proc_archived jan1_start jan31_end = Inl (KeyError ''completed_date'')"
    by (simp add: get_average_completion_time_def Let_def column_no_columns)
  with nc DataProcessor_archived show ?thesis by simp
qed

section \<open>Date ranges\<close>

lemma localize_if_naive_idem [simp]:
  "localize_if_naive (localize_if_naive d) = localize_if_naive d"
  by (simp add: localize_if_naive_def split: option.splits)

lemma localize_if_naive_wall [simp]: "wall (localize_if_naive d) = wall d"
  by (simp add: localize_if_naive_def split: option.splits)

lemma localize_if_naive_Some: "\<exists>off. utcoffset (localize_if_naive d) = Some off"
  by (simp add: localize_if_naive_def split: option.splits)

lemma traverse_map_Inr: "(\<And>x. x \<in> set xs \<Longrightarrow> f x = Inr (g x)) \<Longrightarrow> traverse f xs = Inr (map g xs)"
  by (induction xs) simp_all

lemma traverse_Inl:
  assumes "\<And>x. x \<in> set xs \<Longrightarrow> f x = Inl err \<or> (\<exists>y. f x = Inr y)"
    and "\<exists>x \<in> set xs. f x = Inl err"
  shows "traverse f xs = Inl err"
  using assms
proof (induction xs)
  case Nil
  then show ?case by simp
next
  case (Cons x xs)
  show ?case
  proof (cases "f x")
    case (Inl e)
    with Cons.prems(1) [of x] show ?thesis by simp
  next
    case (Inr y)
    with Cons.prems(2) have "\<exists>x \<in> set xs. f x = Inl err" by auto
    with Cons.IH Cons.prems(1) have "traverse f xs = Inl err" by simp
    with Inr show ?thesis by simp
  qed
qed

lemma dt_le_aware:
  "utcoffset a \<noteq> None \<Longrightarrow> utcoffset b \<noteq> None \<Longrightarrow> dt_le a b = Inr (instant a \<le> instant b)"
  by (auto simp: dt_le_def instant_def)

lemma dt_le_mixed:
  "utcoffset a \<noteq> None \<Longrightarrow> utcoffset b = None \<Longrightarrow> dt_le a b = Inl TypeError"
  by (auto simp: dt_le_def)

lemma dt_le_cases: "dt_le a b = Inl TypeError \<or> (\<exists>y. dt_le a b = Inr y)"
  by (simp add: dt_le_def split: option.splits)

lemma in_range_mask_aware:
  assumes "utcoffset s \<noteq> None" and "utcoffset e \<noteq> None"
    and "\<And>d. Some d \<in> set col \<Longrightarrow> utcoffset d \<noteq> None"
  shows "in_range_mask col s e =
     Inr (map (\<lambda>v. case v of None \<Rightarrow> False
               | Some d \<Rightarrow> instant s \<le> instant d \<and> instant d \<le> instant e) col)"
proof -
  have ge: "traverse (\<lambda>v. case v of None \<Rightarrow> Inr False | Some d \<Rightarrow> dt_le s d) col
      = Inr (map (\<lambda>v. case v of None \<Rightarrow> False | Some d \<Rightarrow> instant s \<le> instant d) col)"
    by (rule traverse_map_Inr) (auto simp: dt_le_aware assms split: option.splits)
  have le: "traverse (\<lambda>v. case v of None \<Rightarrow> Inr False | Some d \<Rightarrow> dt_le d e) col
      = Inr (map (\<lambda>v. case v of None \<Rightarrow> False | Some d \<Rightarrow> instant d \<le> instant e) col)"
    by (rule traverse_map_Inr) (auto simp: dt_le_aware assms split: option.splits)
  show ?thesis
    unfolding in_range_mask_def ge le
    by (simp add: zip_map_map zip_same_conv_map split: option.splits)
qed

lemma in_range_mask_naive_value:
  assumes "utcoffset s \<noteq> None" and "Some d \<in> set col" and "utcoffset d = None"
  shows "in_range_mask col s e = Inl TypeError"
proof -
  have "traverse (\<lambda>v. case v of None \<Rightarrow> Inr False | Some d \<Rightarrow> dt_le s d) col = Inl TypeError"
  proof (rule traverse_Inl)
    fix v assume "v \<in> set col"
    show "(case v of None \<Rightarrow> Inr False | Some d \<Rightarrow> dt_le s d) = Inl TypeError \<or>
          (\<exists>y. (case v of None \<Rightarrow> Inr False | Some d \<Rightarrow> dt_le s d) = Inr y)"
      using dt_le_cases by (cases v) auto
  next
    from assms show "\<exists>v \<in> set col. (case v of None \<Rightarrow> Inr False | Some d \<Rightarrow> dt_le s d) = Inl TypeError"
      by (intro bexI [of _ "Some d"]) (simp_all add: dt_le_mixed)
  qed
  then show ?thesis by (simp add: in_range_mask_def)
qed

lemma select_rows_map:
  "rows (select_rows (map Q (rows df)) df) = filter Q (rows df)"
proof -
  have "map snd (filter fst (zip (map Q xs) xs)) = filter Q xs" for xs
    by (induction xs) simp_all
  then show ?thesis by (simp add: select_rows_def)
qed

lemma has_columns_select_rows [simp]: "has_columns (select_rows m df) = has_columns df"
  by (simp add: select_rows_def)

lemma in_range_mask_column_aware:
  assumes "\<And>r d. r \<in> set rs \<Longrightarrow> f r = Some d \<Longrightarrow> utcoffset d \<noteq> None"
  shows "in_range_mask (map f rs) (localize_if_naive s) (localize_if_naive e)
      = Inr (map (\<lambda>r. case f r of None \<Rightarrow> False
               | Some d \<Rightarrow> instant (localize_if_naive s) \<le> instant d \<and>
                          instant d \<le> instant (localize_if_naive e)) rs)"
proof -
  have "in_range_mask (map f rs) (localize_if_naive s) (localize_if_naive e)
      = Inr (map (\<lambda>v. case v of None \<Rightarrow> False
               | Some d \<Rightarrow> instant (localize_if_naive s) \<le> instant d \<and>
                          instant d \<le> instant (localize_if_naive e)) (map f rs))"
    using localize_if_naive_Some [of s] localize_if_naive_Some [of e] assms
    by (intro in_range_mask_aware) auto
  then show ?thesis by (simp add: comp_def)
qed

lemma filter_by_date_range_aware:
  assumes "has_columns (df_cards p)"
    and "\<And>r d. r \<in> set (rows (df_cards p)) \<Longrightarrow> created_date r = Some d \<Longrightarrow> utcoffset d \<noteq> None"
  shows "\<exists>df. filter_by_date_range p s e = Inr df \<and>
     rows df = filter (\<lambda>r. case created_date r of None \<Rightarrow> False
                 | Some d \<Rightarrow> instant (localize_if_naive s) \<le> instant d \<and>
                            instant d \<le> instant (localize_if_naive e)) (rows (df_cards p))"
proof -
  note m = in_range_mask_column_aware [of "rows (df_cards p)" created_date s e, OF assms(2)]
  have "filter_by_date_range p s e = Inr (select_rows
      (map (\<lambda>r. case created_date r of None \<Rightarrow> False
               | Some d \<Rightarrow> instant (localize_if_naive s) \<le> instant d \<and>
                          instant d \<le> instant (localize_if_naive e)) (rows (df_cards p))) (df_cards p))"
    unfolding filter_by_date_range_def Let_def column_def using assms(1) by (simp add: m)
  then show ?thesis by (simp add: select_rows_map)
qed

lemma filter_by_date_range_naive_value:
  assumes "has_columns (df_cards p)" and "r \<in> set (rows (df_cards p))"
    and "created_date r = Some d" and "utcoffset d = None"
  shows "filter_by_date_range p s e = Inl TypeError"
proof -
  from assms have "Some d \<in> set (map created_date (rows (df_cards p)))" by force
  with assms(4) localize_if_naive_Some [of s]
  have "in_range_mask (map created_date (rows (df_cards p))) (localize_if_naive s) (localize_if_naive e)
      = Inl TypeError"
    by (intro in_range_mask_naive_value [of _ d]) auto
  with assms(1) show ?thesis
    by (simp add: filter_by_date_range_def Let_def column_def)
qed

text \<open>
  The average on a table with rows whose completion timestamps are aware: zero when
  no completion lies in the range, otherwise the mean of the completion times
  present among the rows completed in the range.
\<close>

lemma average_completion_time_on_rows:
  assumes "has_columns (df_cards p)"
    and "\<And>r d. r \<in> set (rows (df_cards p)) \<Longrightarrow> completed_date r = Some d \<Longrightarrow> utcoffset d \<noteq> None"
  shows "get_average_completion_time p s e =
     Inr (let sel = filter (\<lambda>r. case completed_date r of None \<Rightarrow> False
                       | Some d \<Rightarrow> instant (localize_if_naive s) \<le> instant d \<and>
                                  instant d \<le> instant (localize_if_naive e)) (rows (df_cards p))
          in if sel = [] then Num 0 else mean (map completion_time_days sel))"
proof -
  note m = in_range_mask_column_aware [of "rows (df_cards p)" completed_date s e, OF assms(2)]
  show ?thesis
    unfolding get_average_completion_time_def Let_def column_def using assms(1)
    by (simp add: m select_rows_map)
qed

section \<open>Timezone awareness of range bounds\<close>

lemma derive_naive:
  "derive_card trello_fromisoformat (clock_at feb1) (dict_of lists0) (dict_of members0) card_naive
     = Inr row_naive"
  by code_simp

lemma DataProcessor_naive:
  "DataProcessor trello_fromisoformat (clock_at feb1) board_naive = Inr proc_naive"
proof -
  have "\<not> closed card_naive" by (simp add: card_naive_def)
  then show ?thesis
    by (simp add: DataProcessor_def Let_def board_naive_def create_cards_dataframe_def
        proc_naive_def derive_naive)
qed

lemma range_ops_localized:
  "filter_by_date_range p s e = filter_by_date_range p (localize_if_naive s) (localize_if_naive e)"
  "get_cards_completed_count p s e
     = get_cards_completed_count p (localize_if_naive s) (localize_if_naive e)"
  "get_average_completion_time p s e
     = get_average_completion_time p (localize_if_naive s) (localize_if_naive e)"
  "get_cards_timeline p s e = get_cards_timeline p (localize_if_naive s) (localize_if_naive e)"
  by (simp_all add: filter_by_date_range_def get_cards_completed_count_def
      get_average_completion_time_def get_cards_timeline_def)

lemma completed_mask_naive_value:
  assumes "r \<in> set (rows (df_cards p))" and "completed_date r = Some d" and "utcoffset d = None"
  shows "in_range_mask (map completed_date (rows (df_cards p)))
           (localize_if_naive s) (localize_if_naive e) = Inl TypeError"
proof -
  from assms have "Some d \<in> set (map completed_date (rows (df_cards p)))" by force
  with assms(3) localize_if_naive_Some [of s] show ?thesis
    by (intro in_range_mask_naive_value [of _ d]) auto
qed

text \<open>
  Claim C2, as the code has it. A naive bound is not refused: every operation that
  takes a range gives, for a naive bound, the result it gives for the same wall-clock
  reading in UTC. What raises is a naive stored timestamp: with a table that has
  rows, a naive \<open>created_date\<close> makes the created count, the per-member and per-label
  tables and the ranking raise \<open>TypeError\<close>, and a naive \<open>completed_date\<close> makes the
  completed count and the average completion time raise \<open>TypeError\<close>.
\<close>

theorem naive_bounds_read_as_utc:
  "get_cards_created_count p s e
     = get_cards_created_count p (localize_if_naive s) (localize_if_naive e)
   \<and> get_cards_completed_count p s e
     = get_cards_completed_count p (localize_if_naive s) (localize_if_naive e)
   \<and> get_cards_by_member p s e
     = get_cards_by_member p (localize_if_naive s) (localize_if_naive e)
   \<and> get_cards_by_label p s e
     = get_cards_by_label p (localize_if_naive s) (localize_if_naive e)
   \<and> get_average_completion_time p s e
     = get_average_completion_time p (localize_if_naive s) (localize_if_naive e)
   \<and> get_cards_timeline p s e
     = get_cards_timeline p (localize_if_naive s) (localize_if_naive e)
   \<and> get_productivity_ranking p s e
     = get_productivity_ranking p (localize_if_naive s) (localize_if_naive e)
   \<and> (has_columns (df_cards p) \<and>
        (\<exists>r \<in> set (rows (df_cards p)). \<exists>d. created_date r = Some d \<and> utcoffset d = None) \<longrightarrow>
          get_cards_created_count p s e = Inl TypeError
        \<and> get_cards_by_member p s e = Inl TypeError
        \<and> get_cards_by_label p s e = Inl TypeError
        \<and> get_productivity_ranking p s e = Inl TypeError)
   \<and> (has_columns (df_cards p) \<and>
        (\<exists>r \<in> set (rows (df_cards p)). \<exists>d. completed_date r = Some d \<and> utcoffset d = None) \<longrightarrow>
          get_cards_completed_count p s e = Inl TypeError
        \<and> get_average_completion_time p s e = Inl TypeError)"
proof -
  note f = range_ops_localized(1) [of p s e]
  have m: "get_cards_by_member p s e
     = get_cards_by_member p (localize_if_naive s) (localize_if_naive e)"
    unfolding get_cards_by_member_def f [symmetric] ..
  have eqs: "get_cards_created_count p s e
       = get_cards_created_count p (localize_if_naive s) (localize_if_naive e)"
    "get_cards_by_label p s e
       = get_cards_by_label p (localize_if_naive s) (localize_if_naive e)"
    "get_productivity_ranking p s e
       = get_productivity_ranking p (localize_if_naive s) (localize_if_naive e)"
    unfolding get_cards_created_count_def get_cards_by_label_def get_productivity_ranking_def
      f [symmetric] m [symmetric] by (rule refl)+
  have cr: "get_cards_created_count p s e = Inl TypeError
        \<and> get_cards_by_member p s e = Inl TypeError
        \<and> get_cards_by_label p s e = Inl TypeError
        \<and> get_productivity_ranking p s e = Inl TypeError"
    if "has_columns (df_cards p)" "r \<in> set (rows (df_cards p))"
      "created_date r = Some d" "utcoffset d = None" for r d
    using filter_by_date_range_naive_value [OF that, of s e]
    by (simp add: get_cards_created_count_def get_cards_by_member_def get_cards_by_label_def
        get_productivity_ranking_def)
  have co: "get_cards_completed_count p s e = Inl TypeError
        \<and> get_average_completion_time p s e = Inl TypeError"
    if "has_columns (df_cards p)" "r \<in> set (rows (df_cards p))"
      "completed_date r = Some d" "utcoffset d = None" for r d
    using completed_mask_naive_value [OF that(2-4), of s e] that(1)
    by (simp add: get_cards_completed_count_def get_average_completion_time_def Let_def column_def)
  show ?thesis
    using m eqs range_ops_localized(2-4) [of p s e] cr co by blast
qed

theorem naive_bounds_read_as_utc_witness:
  "DataProcessor trello_fromisoformat (clock_at feb1) board_naive = Inr proc_naive
   \<and> has_columns (df_cards proc_naive)
   \<and> row_naive \<in> set (rows (df_cards proc_naive))
   \<and> map_option utcoffset (created_date row_naive) = Some None
   \<and> map_option utcoffset (completed_date row_naive) = Some None
   \<and> get_cards_created_count proc_naive jan1_start jan31_end = Inl TypeError
   \<and> get_cards_by_member proc_naive jan1_start jan31_end = Inl TypeError
   \<and> get_cards_by_label proc_naive jan1_start jan31_end = Inl TypeError
   \<and> get_productivity_ranking proc_naive jan1_start jan31_end = Inl TypeError
   \<and> get_cards_completed_count proc_naive jan1_start jan31_end = Inl TypeError
   \<and> get_average_completion_time proc_naive jan1_start jan31_end = Inl TypeError"
proof -
  have h: "has_columns (df_cards proc_naive)" "row_naive \<in> set (rows (df_cards proc_naive))"
    by (simp_all add: proc_naive_def pd_DataFrame_def)
  have c: "created_date row_naive = Some \<lparr>wall = 1704175200000000, utcoffset = None\<rparr>"
    "completed_date row_naive = Some \<lparr>wall = 1704175200000000, utcoffset = None\<rparr>"
    by (simp_all add: row_naive_def)
  have u: "utcoffset \<lparr>wall = 1704175200000000, utcoffset = None\<rparr> = None" by simp
  from naive_bounds_read_as_utc [of proc_naive jan1_start jan31_end] h c u
  have "get_cards_created_count proc_naive jan1_start jan31_end = Inl TypeError
   \<and> get_cards_by_member proc_naive jan1_start jan31_end = Inl TypeError
   \<and> get_cards_by_label proc_naive jan1_start jan31_end = Inl TypeError
   \<and> get_productivity_ranking proc_naive jan1_start jan31_end = Inl TypeError
   \<and> get_cards_completed_count proc_naive jan1_start jan31_end = Inl TypeError
   \<and> get_average_completion_time proc_naive jan1_start jan31_end = Inl TypeError"
    by blast
  with DataProcessor_naive h c show ?thesis by simp
qed

text \<open>
  The claim as stated fails on the January range of the dashboard: both bounds are
  naive, every stored timestamp of \<open>proc_team\<close> is aware, and the counts are
  returned, no error is raised.
\<close>

theorem naive_bounds_fail_loudly_counterexample:
  "utcoffset jan1_start = None \<and> utcoffset jan31_end = None
   \<and> map (\<lambda>r. map_option utcoffset (created_date r)) (rows (df_cards proc_team))
       = [Some (Some 0), Some (Some 0), Some (Some 0)]
   \<and> map (\<lambda>r. map_option utcoffset (completed_date r)) (rows (df_cards proc_team))
       = [Some (Some 0), None, Some (Some 0)]
   \<and> get_cards_created_count proc_team jan1_start jan31_end = Inr 3
   \<and> get_cards_completed_count proc_team jan1_start jan31_end = Inr 2"
  by code_simp

section \<open>The timeline\<close>

lemma day_us_pos [simp]: "0 < day_us"
  by (simp add: day_us_def)

lemma date_of_add_days: "date_of (d\<lparr>wall := wall d + int k * day_us\<rparr>) = date_of d + int k"
  by (simp add: date_of_def day_us_def)

lemma date_of_localize [simp]: "date_of (localize_if_naive d) = date_of d"
  by (simp add: date_of_def)

lemma counts_at_count_list: "counts_at xs d = count_list xs d"
  by (auto simp: counts_at_def count_list_0_iff)

lemma counts_at_column:
  "counts_at (map (\<lambda>v. date_of (the v)) (filter (\<lambda>v. v \<noteq> None) (map f rs))) d
     = length (filter (\<lambda>r. case f r of None \<Rightarrow> False | Some t \<Rightarrow> date_of t = d) rs)"
  unfolding counts_at_count_list
  by (induction rs) (auto split: option.splits)

lemma length_remdups_le_1:
  "length (remdups xs) \<le> 1 \<longleftrightarrow> (\<forall>a \<in> set xs. \<forall>b \<in> set xs. a = b)"
proof -
  have "length (remdups xs) = card (set xs)" by (rule length_remdups_card_conv)
  moreover have "card (set xs) \<le> Suc 0 \<longleftrightarrow> (\<forall>a \<in> set xs. \<forall>b \<in> set xs. a = b)"
    by (rule card_le_Suc0_iff_eq) simp
  ultimately show ?thesis by simp
qed

text \<open>
  The dates of a column: those of the values present when they share one timezone,
  and the \<open>ValueError\<close> of \<open>pd.to_datetime\<close> when two of them do not.
\<close>

lemma dates_of_column_uniform:
  assumes "\<forall>r \<in> set rs. \<forall>r' \<in> set rs. \<forall>d d'.
             f r = Some d \<and> f r' = Some d' \<longrightarrow> utcoffset d = utcoffset d'"
  shows "dates_of_column (map f rs)
     = Inr (map (\<lambda>v. date_of (the v)) (filter (\<lambda>v. v \<noteq> None) (map f rs)))"
proof -
  let ?present = "map the (filter (\<lambda>v. v \<noteq> None) (map f rs))"
  have "\<forall>a \<in> set (map utcoffset ?present). \<forall>b \<in> set (map utcoffset ?present). a = b"
    using assms by fastforce
  then have "to_datetime ?present = Inr ?present"
    unfolding to_datetime_def length_remdups_le_1 by (rule if_P)
  then show ?thesis
    by (simp add: dates_of_column_def Let_def comp_def)
qed

lemma dates_of_column_mixed:
  assumes "r \<in> set rs" and "r' \<in> set rs" and "f r = Some d" and "f r' = Some d'"
    and "utcoffset d \<noteq> utcoffset d'"
  shows "dates_of_column (map f rs) = Inl ValueError"
proof -
  let ?present = "map the (filter (\<lambda>v. v \<noteq> None) (map f rs))"
  have pd: "d \<in> set ?present" "d' \<in> set ?present"
    using assms(1-4) by force+
  have m: "utcoffset d \<in> set (map utcoffset ?present)" "utcoffset d' \<in> set (map utcoffset ?present)"
    unfolding set_map [of utcoffset] by (rule imageI, rule pd)+
  have "\<not> (\<forall>a \<in> set (map utcoffset ?present). \<forall>b \<in> set (map utcoffset ?present). a = b)"
    using m assms(5) by blast
  then have t: "to_datetime ?present = Inl ValueError"
    unfolding to_datetime_def length_remdups_le_1 by (rule if_not_P)
  from pd(1) have "0 < length ?present" by (rule length_pos_if_in_set)
  then show ?thesis
    unfolding dates_of_column_def Let_def t by (simp only: if_True ebind_Inl)
qed

lemma get_cards_timeline_closed_form:
  assumes "has_columns (df_cards p)"
    and "utcoffset (localize_if_naive s) = utcoffset (localize_if_naive e)"
    and "\<forall>r \<in> set (rows (df_cards p)). \<forall>r' \<in> set (rows (df_cards p)). \<forall>d d'.
           created_date r = Some d \<and> created_date r' = Some d' \<longrightarrow> utcoffset d = utcoffset d'"
    and "\<forall>r \<in> set (rows (df_cards p)). \<forall>r' \<in> set (rows (df_cards p)). \<forall>d d'.
           completed_date r = Some d \<and> completed_date r' = Some d' \<longrightarrow> utcoffset d = utcoffset d'"
  shows "get_cards_timeline p s e =
     Inr (map (\<lambda>k. \<lparr>tl_date = (localize_if_naive s)\<lparr>wall := wall s + int k * day_us\<rparr>,
                     tl_created = length (filter (\<lambda>r. case created_date r of None \<Rightarrow> False
                                     | Some t \<Rightarrow> date_of t = date_of s + int k) (rows (df_cards p))),
                     tl_completed = length (filter (\<lambda>r. case completed_date r of None \<Rightarrow> False
                                     | Some t \<Rightarrow> date_of t = date_of s + int k) (rows (df_cards p)))\<rparr>)
              [0 ..< nat ((wall e - wall s) div day_us + 1)])"
proof -
  have d: "date_of ((localize_if_naive s)\<lparr>wall := wall s + int k * day_us\<rparr>) = date_of s + int k" for k
    using date_of_add_days [of "localize_if_naive s" k] by simp
  have c: "column name f (df_cards p) = Inr (map f (rows (df_cards p)))" for name and f :: "derived_card \<Rightarrow> 'a"
    using assms(1) by (simp add: column_def)
  have r: "date_range (localize_if_naive s) (localize_if_naive e)
     = Inr (map (\<lambda>k. (localize_if_naive s)\<lparr>wall := wall s + int k * day_us\<rparr>)
              [0 ..< nat ((wall e - wall s) div day_us + 1)])"
    using assms(2) by (simp add: date_range_def)
  note dc = dates_of_column_uniform [of "rows (df_cards p)" created_date, OF assms(3)]
  note dd = dates_of_column_uniform [of "rows (df_cards p)" completed_date, OF assms(4)]
  show ?thesis
    unfolding get_cards_timeline_def Let_def c r dc dd ebind_Inr counts_at_column
    by (simp add: comp_def d cong: option.case_cong)
qed

text \<open>
  When two values of the \<open>completed_date\<close> column differ in timezone, the timeline
  raises; so it does on the board of two cards completed at \<open>15:30Z\<close> and at
  \<open>10:00+05:00\<close>.
\<close>

lemma get_cards_timeline_mixed_completed:
  assumes "has_columns (df_cards p)"
    and "utcoffset (localize_if_naive s) = utcoffset (localize_if_naive e)"
    and "\<forall>r \<in> set (rows (df_cards p)). \<forall>r' \<in> set (rows (df_cards p)). \<forall>d d'.
           created_date r = Some d \<and> created_date r' = Some d' \<longrightarrow> utcoffset d = utcoffset d'"
    and "r \<in> set (rows (df_cards p))" and "r' \<in> set (rows (df_cards p))"
    and "completed_date r = Some d" and "completed_date r' = Some d'"
    and "utcoffset d \<noteq> utcoffset d'"
  shows "get_cards_timeline p s e = Inl ValueError"
proof -
  have c: "column name f (df_cards p) = Inr (map f (rows (df_cards p)))" for name and f :: "derived_card \<Rightarrow> 'a"
    using assms(1) by (simp add: column_def)
  have r: "date_range (localize_if_naive s) (localize_if_naive e)
     = Inr (map (\<lambda>k. (localize_if_naive s)\<lparr>wall := wall s + int k * day_us\<rparr>)
              [0 ..< nat ((wall e - wall s) div day_us + 1)])"
    using assms(2) by (simp add: date_range_def)
  note dc = dates_of_column_uniform [of "rows (df_cards p)" created_date, OF assms(3)]
  note dd = dates_of_column_mixed [of r "rows (df_cards p)" r' completed_date d d', OF assms(4-8)]
  show ?thesis
    unfolding get_cards_timeline_def Let_def c r dc dd ebind_Inr
    by (simp add: ebind_def)
qed

lemma derive_done_plus5:
  "derive_card trello_fromisoformat (clock_at feb1) (dict_of lists0) (dict_of members0) card_done_plus5
     = Inr row_done_plus5"
  by code_simp

lemma DataProcessor_two_zones:
  "DataProcessor trello_fromisoformat (clock_at feb1) board_two_zones = Inr proc_two_zones"
proof -
  have "\<not> closed card_done_twice" "\<not> closed card_done_plus5"
    by (simp_all add: card_done_twice_def card_done_plus5_def)
  then show ?thesis
    by (simp add: DataProcessor_def Let_def board_two_zones_def create_cards_dataframe_def
        proc_two_zones_def derive_done_twice derive_done_plus5)
qed

lemma timeline_two_zones:
  "map (\<lambda>r. map_option utcoffset (completed_date r)) (rows (df_cards proc_two_zones))
     = [Some (Some 0), Some (Some 18000000000)]
   \<and> get_cards_timeline proc_two_zones jan1_start jan3_end = Inl ValueError"
  by code_simp

lemma div_of_aligned_difference:
  fixes a b D :: int
  assumes "0 < D" and "a mod D \<le> b mod D"
  shows "(b - a) div D = b div D - a div D"
proof -
  have "b - a = (b div D - a div D) * D + (b mod D - a mod D)"
    by (simp add: algebra_simps)
  moreover have "0 \<le> b mod D - a mod D" "b mod D - a mod D < D"
    using assms pos_mod_bound [of D b] pos_mod_sign [of D a] by linarith+
  ultimately show ?thesis
    using assms(1) div_pos_pos_trivial [of "b mod D - a mod D" D]
    by (simp add: div_mult_self3)
qed

lemma div_of_unaligned_difference:
  fixes a b D :: int
  assumes "0 < D" and "b mod D < a mod D"
  shows "(b - a) div D = b div D - a div D - 1"
proof -
  have "b - a = (b div D - a div D - 1) * D + (b mod D - a mod D + D)"
    by (simp add: algebra_simps)
  moreover have "0 \<le> b mod D - a mod D + D" "b mod D - a mod D + D < D"
    using assms pos_mod_bound [of D a] pos_mod_sign [of D b] by linarith+
  ultimately show ?thesis
    using assms(1) div_pos_pos_trivial [of "b mod D - a mod D + D" D]
    by (simp add: div_mult_self3)
qed

lemma length_filter_disjoint:
  "(\<And>x. x \<in> set xs \<Longrightarrow> \<not> (A x \<and> B x)) \<Longrightarrow>
   length (filter A xs) + length (filter B xs) = length (filter (\<lambda>x. A x \<or> B x) xs)"
  by (induction xs) auto

lemma sum_length_filter_days:
  "sum_list (map (\<lambda>k. length (filter (\<lambda>r. case f r of None \<Rightarrow> False
                                       | Some t \<Rightarrow> g t = d0 + int k) rs)) [0 ..< N])
     = length (filter (\<lambda>r. case f r of None \<Rightarrow> False
                          | Some t \<Rightarrow> d0 \<le> g t \<and> g t < d0 + int N) rs)"
proof (induction N)
  case 0
  then show ?case by (auto simp: filter_empty_conv split: option.splits)
next
  case (Suc N)
  have "length (filter (\<lambda>r. case f r of None \<Rightarrow> False | Some t \<Rightarrow> d0 \<le> g t \<and> g t < d0 + int N) rs)
      + length (filter (\<lambda>r. case f r of None \<Rightarrow> False | Some t \<Rightarrow> g t = d0 + int N) rs)
      = length (filter (\<lambda>r. (case f r of None \<Rightarrow> False | Some t \<Rightarrow> d0 \<le> g t \<and> g t < d0 + int N)
                          \<or> (case f r of None \<Rightarrow> False | Some t \<Rightarrow> g t = d0 + int N)) rs)"
    by (rule length_filter_disjoint) (auto split: option.splits)
  also have "(\<lambda>r. (case f r of None \<Rightarrow> False | Some t \<Rightarrow> d0 \<le> g t \<and> g t < d0 + int N)
                          \<or> (case f r of None \<Rightarrow> False | Some t \<Rightarrow> g t = d0 + int N))
      = (\<lambda>r. case f r of None \<Rightarrow> False | Some t \<Rightarrow> d0 \<le> g t \<and> g t < d0 + int (Suc N))"
    by (rule ext) (auto split: option.splits)
  finally show ?case using Suc.IH by simp
qed

lemma div_ge_iff:
  fixes c D k :: int
  assumes "0 < D"
  shows "k \<le> c div D \<longleftrightarrow> k * D \<le> c"
proof
  assume "k \<le> c div D"
  then have "k * D \<le> (c div D) * D" using assms by (simp add: mult_right_mono)
  also have "\<dots> = c - c mod D" by (simp add: algebra_simps minus_mod_eq_mult_div)
  also have "\<dots> \<le> c" using assms by simp
  finally show "k * D \<le> c" .
next
  assume "k * D \<le> c"
  then have "(k * D) div D \<le> c div D" using assms by (rule zdiv_mono1)
  then show "k \<le> c div D" using assms by simp
qed

lemma div_less_iff:
  fixes c D k :: int
  assumes "0 < D"
  shows "c div D < k \<longleftrightarrow> c < k * D"
  using div_ge_iff [OF assms, of k c] by linarith

lemma day_window:
  fixes ws we c D :: int
  assumes "0 < D" and "ws mod D = 0" and "we mod D = D - 1"
  shows "(ws div D \<le> c div D \<and> c div D < ws div D + int (nat ((we - ws) div D + 1)))
     \<longleftrightarrow> (ws \<le> c \<and> c \<le> we)"
proof -
  have ws: "ws = (ws div D) * D" using assms(2) by (metis add.right_neutral div_mult_mod_eq)
  have we: "we = (we div D) * D + (D - 1)" using assms(3) by (metis div_mult_mod_eq)
  have "ws mod D \<le> we mod D" using assms by simp
  from div_of_aligned_difference [OF assms(1) this]
  have n: "(we - ws) div D = we div D - ws div D" .
  have lo: "ws div D \<le> c div D \<longleftrightarrow> ws \<le> c"
    using div_ge_iff [OF assms(1), of "ws div D" c] ws by simp
  show ?thesis
  proof (cases "0 \<le> we div D - ws div D + 1")
    case True
    then have "ws div D + int (nat ((we - ws) div D + 1)) = we div D + 1" using n by simp
    moreover have "(we div D + 1) * D = we + 1" using we by (simp add: algebra_simps)
    then have "c div D < we div D + 1 \<longleftrightarrow> c \<le> we"
      using div_less_iff [OF assms(1), of c "we div D + 1"] by linarith
    ultimately show ?thesis using lo by simp
  next
    case False
    then have z: "nat ((we - ws) div D + 1) = 0" using n by simp
    from False have "we div D + 1 \<le> ws div D" by simp
    then have "(we div D + 1) * D \<le> (ws div D) * D" using assms(1) by (simp add: mult_right_mono)
    then have "we < ws" using ws we by (simp add: algebra_simps)
    then show ?thesis using z by auto
  qed
qed

text \<open>
  Claim C7, as the code has it. On a table with rows whose \<open>created_date\<close>s share
  one timezone and whose \<open>completed_date\<close>s share one timezone, for bounds of one
  timezone (naive bounds read as UTC): the timeline is returned; it has
  \<open>(end - start).days + 1\<close> rows when the start is not after the end, the whole days
  of the difference of the two datetimes, and none when the end is before the start;
  row \<open>k\<close> is the calendar day \<open>k\<close> days after the start's, so the rows are
  contiguous and ascending; its counts are the numbers of rows of the table created
  and completed on that calendar day, zero when there is none. When the start is not
  after the end, there is one row for each calendar day from the start's to the end's
  if and only if the end's time of day is not earlier than the start's, as in the
  ranges of the dashboard.
\<close>

theorem timeline_rows_from_start:
  assumes "has_columns (df_cards p)"
    and "utcoffset (localize_if_naive s) = utcoffset (localize_if_naive e)"
    and "\<forall>r \<in> set (rows (df_cards p)). \<forall>r' \<in> set (rows (df_cards p)). \<forall>d d'.
           created_date r = Some d \<and> created_date r' = Some d' \<longrightarrow> utcoffset d = utcoffset d'"
    and "\<forall>r \<in> set (rows (df_cards p)). \<forall>r' \<in> set (rows (df_cards p)). \<forall>d d'.
           completed_date r = Some d \<and> completed_date r' = Some d' \<longrightarrow> utcoffset d = utcoffset d'"
  shows "case get_cards_timeline p s e of
      Inl err \<Rightarrow> False
    | Inr tline \<Rightarrow>
        length tline = nat ((wall e - wall s) div day_us + 1)
      \<and> (wall s \<le> wall e \<longrightarrow> int (length tline) = (wall e - wall s) div day_us + 1)
      \<and> (wall e < wall s \<longrightarrow> tline = [])
      \<and> map (\<lambda>r. date_of (tl_date r)) tline = map (\<lambda>k. date_of s + int k) [0 ..< length tline]
      \<and> map tl_created tline =
          map (\<lambda>k. length (filter (\<lambda>r. case created_date r of None \<Rightarrow> False
                     | Some t \<Rightarrow> date_of t = date_of s + int k) (rows (df_cards p))))
              [0 ..< length tline]
      \<and> map tl_completed tline =
          map (\<lambda>k. length (filter (\<lambda>r. case completed_date r of None \<Rightarrow> False
                     | Some t \<Rightarrow> date_of t = date_of s + int k) (rows (df_cards p))))
              [0 ..< length tline]
      \<and> (wall s \<le> wall e \<longrightarrow>
            (int (length tline) = date_of e - date_of s + 1
               \<longleftrightarrow> wall s mod day_us \<le> wall e mod day_us))"
proof -
  define tline where "tline =
     map (\<lambda>k. \<lparr>tl_date = (localize_if_naive s)\<lparr>wall := wall s + int k * day_us\<rparr>,
                tl_created = length (filter (\<lambda>r. case created_date r of None \<Rightarrow> False
                                | Some t \<Rightarrow> date_of t = date_of s + int k) (rows (df_cards p))),
                tl_completed = length (filter (\<lambda>r. case completed_date r of None \<Rightarrow> False
                                | Some t \<Rightarrow> date_of t = date_of s + int k) (rows (df_cards p)))\<rparr>)
         [0 ..< nat ((wall e - wall s) div day_us + 1)]"
  have eq: "get_cards_timeline p s e = Inr tline"
    unfolding tline_def by (rule get_cards_timeline_closed_form [OF assms])
  have len: "length tline = nat ((wall e - wall s) div day_us + 1)"
    by (simp add: tline_def)
  have nn: "0 \<le> (wall e - wall s) div day_us" if "wall s \<le> wall e"
    using that by (simp add: pos_imp_zdiv_nonneg_iff)
  have al: "(wall e - wall s) div day_us = date_of e - date_of s"
    if "wall s mod day_us \<le> wall e mod day_us"
    using div_of_aligned_difference [OF day_us_pos that] by (simp add: date_of_def)
  have d: "date_of ((localize_if_naive s)\<lparr>wall := wall s + int k * day_us\<rparr>) = date_of s + int k" for k
    using date_of_add_days [of "localize_if_naive s" k] by simp
  have f2: "wall s \<le> wall e \<longrightarrow> int (length tline) = (wall e - wall s) div day_us + 1"
    using nn len by auto
  have f7: "wall e < wall s \<longrightarrow> tline = []"
  proof
    assume "wall e < wall s"
    then have "(wall e - wall s) div day_us < 0"
      by (simp add: pos_imp_zdiv_neg_iff)
    with len show "tline = []" by simp
  qed
  have f3: "map (\<lambda>r. date_of (tl_date r)) tline = map (\<lambda>k. date_of s + int k) [0 ..< length tline]"
    unfolding len by (simp add: tline_def comp_def d)
  have f4: "map tl_created tline =
          map (\<lambda>k. length (filter (\<lambda>r. case created_date r of None \<Rightarrow> False
                     | Some t \<Rightarrow> date_of t = date_of s + int k) (rows (df_cards p))))
              [0 ..< length tline]"
    unfolding len by (simp add: tline_def comp_def)
  have f5: "map tl_completed tline =
          map (\<lambda>k. length (filter (\<lambda>r. case completed_date r of None \<Rightarrow> False
                     | Some t \<Rightarrow> date_of t = date_of s + int k) (rows (df_cards p))))
              [0 ..< length tline]"
    unfolding len by (simp add: tline_def comp_def)
  have ua: "(wall e - wall s) div day_us = date_of e - date_of s - 1"
    if "\<not> wall s mod day_us \<le> wall e mod day_us"
    using div_of_unaligned_difference [OF day_us_pos, of "wall e" "wall s"] that
    by (simp add: date_of_def)
  have f6: "wall s \<le> wall e \<longrightarrow>
            (int (length tline) = date_of e - date_of s + 1
               \<longleftrightarrow> wall s mod day_us \<le> wall e mod day_us)"
  proof
    assume le: "wall s \<le> wall e"
    with f2 have l: "int (length tline) = (wall e - wall s) div day_us + 1" by simp
    show "int (length tline) = date_of e - date_of s + 1
               \<longleftrightarrow> wall s mod day_us \<le> wall e mod day_us"
    proof (cases "wall s mod day_us \<le> wall e mod day_us")
      case True
      with al l show ?thesis by simp
    next
      case False
      with ua l show ?thesis by simp
    qed
  qed
  show ?thesis
    unfolding eq sum.case by (intro conjI len f2 f7 f3 f4 f5 f6)
qed

lemma timeline_team_eval: "get_cards_timeline proc_team jan1_start jan3_end = Inr timeline_team"
  by code_simp

theorem timeline_rows_from_start_witness:
  "has_columns (df_cards proc_team)
   \<and> utcoffset (localize_if_naive jan1_start) = utcoffset (localize_if_naive jan3_end)
   \<and> map (\<lambda>r. map_option utcoffset (created_date r)) (rows (df_cards proc_team))
       = [Some (Some 0), Some (Some 0), Some (Some 0)]
   \<and> map (\<lambda>r. map_option utcoffset (completed_date r)) (rows (df_cards proc_team))
       = [Some (Some 0), None, Some (Some 0)]
   \<and> wall jan1_start \<le> wall jan3_end
   \<and> wall jan1_start mod day_us \<le> wall jan3_end mod day_us
   \<and> get_cards_timeline proc_team jan1_start jan3_end = Inr timeline_team
   \<and> int (length timeline_team) = (wall jan3_end - wall jan1_start) div day_us + 1
   \<and> int (length timeline_team) = date_of jan3_end - date_of jan1_start + 1
   \<and> map (\<lambda>r. date_of (tl_date r)) timeline_team
       = map (\<lambda>k. date_of jan1_start + int k) [0 ..< length timeline_team]
   \<and> map tl_created timeline_team = [1, 1, 0]
   \<and> map tl_completed timeline_team = [0, 1, 0]"
proof -
  have h1: "has_columns (df_cards proc_team)"
    by (simp add: proc_team_def pd_DataFrame_def)
  have h2: "utcoffset (localize_if_naive jan1_start) = utcoffset (localize_if_naive jan3_end)"
    by (simp add: localize_if_naive_def jan1_start_def jan3_end_def)
  have h3: "wall jan1_start \<le> wall jan3_end"
    "wall jan1_start mod day_us \<le> wall jan3_end mod day_us"
    by (simp_all add: jan1_start_def jan3_end_def day_us_def)
  have v: "map tl_created timeline_team = [1, 1, 0]" "map tl_completed timeline_team = [0, 1, 0]"
    by (simp_all add: timeline_team_def)
  have h4: "\<forall>r \<in> set (rows (df_cards proc_team)). \<forall>r' \<in> set (rows (df_cards proc_team)). \<forall>d d'.
       created_date r = Some d \<and> created_date r' = Some d' \<longrightarrow> utcoffset d = utcoffset d'"
    by (auto simp: proc_team_def pd_DataFrame_def row_done_twice_def row_update_only_def
        row_no_actions_def)
  have h5: "\<forall>r \<in> set (rows (df_cards proc_team)). \<forall>r' \<in> set (rows (df_cards proc_team)). \<forall>d d'.
       completed_date r = Some d \<and> completed_date r' = Some d' \<longrightarrow> utcoffset d = utcoffset d'"
    by (auto simp: proc_team_def pd_DataFrame_def row_done_twice_def row_update_only_def
        row_no_actions_def)
  have h4': "map (\<lambda>r. map_option utcoffset (created_date r)) (rows (df_cards proc_team))
       = [Some (Some 0), Some (Some 0), Some (Some 0)]"
    "map (\<lambda>r. map_option utcoffset (completed_date r)) (rows (df_cards proc_team))
       = [Some (Some 0), None, Some (Some 0)]"
    by (simp_all add: proc_team_def pd_DataFrame_def row_done_twice_def row_update_only_def
        row_no_actions_def)
  from timeline_rows_from_start [OF h1 h2 h4 h5] h3
  have "int (length timeline_team) = (wall jan3_end - wall jan1_start) div day_us + 1
   \<and> int (length timeline_team) = date_of jan3_end - date_of jan1_start + 1
   \<and> map (\<lambda>r. date_of (tl_date r)) timeline_team
       = map (\<lambda>k. date_of jan1_start + int k) [0 ..< length timeline_team]"
    unfolding timeline_team_eval by simp
  with h1 h2 h4' h3 v timeline_team_eval show ?thesis by blast
qed

text \<open>
  The claim as stated fails on the range from 1 January 23:00 to 2 January 01:00:
  it covers two calendar days, the timeline has the single row of 1 January, and
  2 January has no row.
\<close>

theorem timeline_one_row_per_calendar_day_counterexample:
  "wall jan1_23h \<le> wall jan2_01h
   \<and> date_of jan1_23h = 19723 \<and> date_of jan2_01h = 19724
   \<and> get_cards_timeline proc_team jan1_23h jan2_01h
       = Inr [\<lparr>tl_date = \<lparr>wall = 1704150000000000, utcoffset = Some 0\<rparr>,
                tl_created = 1, tl_completed = 0\<rparr>]
   \<and> date_of \<lparr>wall = 1704150000000000, utcoffset = Some 0\<rparr> = 19723"
  by code_simp

section \<open>Timeline and created count\<close>

lemma instant_utc: "utcoffset d = Some 0 \<Longrightarrow> instant d = wall d"
  by (simp add: instant_def)

lemma localize_if_naive_utc:
  "utcoffset d = None \<or> utcoffset d = Some 0 \<Longrightarrow> utcoffset (localize_if_naive d) = Some 0"
  by (auto simp: localize_if_naive_def)

text \<open>
  Claim C3, as the code has it. On a table with rows whose \<open>created_date\<close>s are in
  UTC and whose \<open>completed_date\<close>s share one timezone, for a range with naive or UTC
  bounds that starts at midnight and ends at the last microsecond of a day (the
  ranges the dashboard passes), the timeline is returned and its \<open>created\<close> column
  sums to the created count.
\<close>

theorem timeline_created_sum_day_aligned:
  assumes "has_columns (df_cards p)"
    and "\<forall>r \<in> set (rows (df_cards p)). \<forall>d. created_date r = Some d \<longrightarrow> utcoffset d = Some 0"
    and "\<forall>r \<in> set (rows (df_cards p)). \<forall>r' \<in> set (rows (df_cards p)). \<forall>d d'.
           completed_date r = Some d \<and> completed_date r' = Some d' \<longrightarrow> utcoffset d = utcoffset d'"
    and "utcoffset s = None \<or> utcoffset s = Some 0"
    and "utcoffset e = None \<or> utcoffset e = Some 0"
    and "wall s mod day_us = 0"
    and "wall e mod day_us = day_us - 1"
  shows "case get_cards_timeline p s e of
      Inl err \<Rightarrow> False
    | Inr tline \<Rightarrow> get_cards_created_count p s e = Inr (sum_list (map tl_created tline))"
proof -
  let ?rs = "rows (df_cards p)"
  let ?N = "nat ((wall e - wall s) div day_us + 1)"
  have ls: "utcoffset (localize_if_naive s) = Some 0" and le: "utcoffset (localize_if_naive e) = Some 0"
    using assms(4,5) by (simp_all add: localize_if_naive_utc)
  have istart: "instant (localize_if_naive s) = wall s" and ie: "instant (localize_if_naive e) = wall e"
    using instant_utc [OF ls] instant_utc [OF le] by simp_all
  have "\<exists>df. filter_by_date_range p s e = Inr df \<and>
     rows df = filter (\<lambda>r. case created_date r of None \<Rightarrow> False
                 | Some d \<Rightarrow> instant (localize_if_naive s) \<le> instant d \<and>
                            instant d \<le> instant (localize_if_naive e)) ?rs"
    by (rule filter_by_date_range_aware [OF assms(1)]) (use assms(2) in auto)
  then have cnt: "get_cards_created_count p s e =
      Inr (length (filter (\<lambda>r. case created_date r of None \<Rightarrow> False
             | Some d \<Rightarrow> wall s \<le> instant d \<and> instant d \<le> wall e) ?rs))"
    unfolding istart ie by (auto simp: get_cards_created_count_def)
  have tl: "get_cards_timeline p s e =
     Inr (map (\<lambda>k. \<lparr>tl_date = (localize_if_naive s)\<lparr>wall := wall s + int k * day_us\<rparr>,
                     tl_created = length (filter (\<lambda>r. case created_date r of None \<Rightarrow> False
                                     | Some t \<Rightarrow> date_of t = date_of s + int k) ?rs),
                     tl_completed = length (filter (\<lambda>r. case completed_date r of None \<Rightarrow> False
                                     | Some t \<Rightarrow> date_of t = date_of s + int k) ?rs)\<rparr>)
              [0 ..< ?N])"
  proof (rule get_cards_timeline_closed_form [OF assms(1) _ _ assms(3)])
    show "utcoffset (localize_if_naive s) = utcoffset (localize_if_naive e)"
      by (simp add: ls le)
    show "\<forall>r \<in> set ?rs. \<forall>r' \<in> set ?rs. \<forall>d d'.
           created_date r = Some d \<and> created_date r' = Some d' \<longrightarrow> utcoffset d = utcoffset d'"
      using assms(2) by simp
  qed
  have "filter (\<lambda>r. case created_date r of None \<Rightarrow> False
             | Some t \<Rightarrow> date_of s \<le> date_of t \<and> date_of t < date_of s + int ?N) ?rs
      = filter (\<lambda>r. case created_date r of None \<Rightarrow> False
             | Some d \<Rightarrow> wall s \<le> instant d \<and> instant d \<le> wall e) ?rs"
  proof (rule filter_cong [OF refl])
    fix r assume r: "r \<in> set ?rs"
    show "(case created_date r of None \<Rightarrow> False
             | Some t \<Rightarrow> date_of s \<le> date_of t \<and> date_of t < date_of s + int ?N)
        = (case created_date r of None \<Rightarrow> False
             | Some d \<Rightarrow> wall s \<le> instant d \<and> instant d \<le> wall e)"
    proof (cases "created_date r")
      case None
      then show ?thesis by simp
    next
      case (Some t)
      with assms(2) r have "instant t = wall t" by (auto intro: instant_utc)
      with Some day_window [OF day_us_pos assms(6,7), of "wall t"] show ?thesis
        by (simp add: date_of_def)
    qed
  qed
  then have "sum_list (map (\<lambda>k. length (filter (\<lambda>r. case created_date r of None \<Rightarrow> False
                                     | Some t \<Rightarrow> date_of t = date_of s + int k) ?rs)) [0 ..< ?N])
      = length (filter (\<lambda>r. case created_date r of None \<Rightarrow> False
             | Some d \<Rightarrow> wall s \<le> instant d \<and> instant d \<le> wall e) ?rs)"
    by (simp only: sum_length_filter_days)
  then show ?thesis
    unfolding tl sum.case cnt by (simp add: comp_def)
qed

lemma created_count_team_eval: "get_cards_created_count proc_team jan1_start jan3_end = Inr 2"
  by code_simp

theorem timeline_created_sum_day_aligned_witness:
  "has_columns (df_cards proc_team)
   \<and> map (\<lambda>r. map_option utcoffset (created_date r)) (rows (df_cards proc_team))
       = [Some (Some 0), Some (Some 0), Some (Some 0)]
   \<and> map (\<lambda>r. map_option utcoffset (completed_date r)) (rows (df_cards proc_team))
       = [Some (Some 0), None, Some (Some 0)]
   \<and> utcoffset jan1_start = None \<and> utcoffset jan3_end = None
   \<and> wall jan1_start mod day_us = 0 \<and> wall jan3_end mod day_us = day_us - 1
   \<and> get_cards_timeline proc_team jan1_start jan3_end = Inr timeline_team
   \<and> get_cards_created_count proc_team jan1_start jan3_end = Inr (sum_list (map tl_created timeline_team))
   \<and> sum_list (map tl_created timeline_team) = 2"
proof -
  have h1: "has_columns (df_cards proc_team)"
    by (simp add: proc_team_def pd_DataFrame_def)
  have h2: "\<forall>r \<in> set (rows (df_cards proc_team)). \<forall>d. created_date r = Some d \<longrightarrow> utcoffset d = Some 0"
    by (auto simp: proc_team_def pd_DataFrame_def row_done_twice_def row_update_only_def
        row_no_actions_def)
  have h2': "map (\<lambda>r. map_option utcoffset (created_date r)) (rows (df_cards proc_team))
       = [Some (Some 0), Some (Some 0), Some (Some 0)]"
    by (simp add: proc_team_def pd_DataFrame_def row_done_twice_def row_update_only_def
        row_no_actions_def)
  have h5: "\<forall>r \<in> set (rows (df_cards proc_team)). \<forall>r' \<in> set (rows (df_cards proc_team)). \<forall>d d'.
       completed_date r = Some d \<and> completed_date r' = Some d' \<longrightarrow> utcoffset d = utcoffset d'"
    by (auto simp: proc_team_def pd_DataFrame_def row_done_twice_def row_update_only_def
        row_no_actions_def)
  have h5': "map (\<lambda>r. map_option utcoffset (completed_date r)) (rows (df_cards proc_team))
       = [Some (Some 0), None, Some (Some 0)]"
    by (simp add: proc_team_def pd_DataFrame_def row_done_twice_def row_update_only_def
        row_no_actions_def)
  have h3: "utcoffset jan1_start = None" "utcoffset jan3_end = None"
    by (simp_all add: jan1_start_def jan3_end_def)
  have h4: "wall jan1_start mod day_us = 0" "wall jan3_end mod day_us = day_us - 1"
    by (simp_all add: jan1_start_def jan3_end_def day_us_def)
  have v: "sum_list (map tl_created timeline_team) = 2"
    by (simp add: timeline_team_def)
  from timeline_created_sum_day_aligned [OF h1 h2 h5 disjI1 [OF h3(1)] disjI1 [OF h3(2)] h4]
  have "get_cards_created_count proc_team jan1_start jan3_end
      = Inr (sum_list (map tl_created timeline_team))"
    unfolding timeline_team_eval by simp
  with h1 h2' h5' h3 h4 v timeline_team_eval show ?thesis by blast
qed

text \<open>
  The claim as stated fails on the range from noon of 1 January to noon of
  3 January: one card was created inside the range, and the \<open>created\<close> column of the
  timeline sums to two, because the card created on 1 January at 08:00, before the
  range starts, is counted on the row of 1 January.
\<close>

theorem timeline_created_sum_counterexample:
  "get_cards_timeline proc_team jan1_noon jan3_noon = Inr timeline_noon
   \<and> sum_list (map tl_created timeline_noon) = 2
   \<and> get_cards_created_count proc_team jan1_noon jan3_noon = Inr 1"
  by code_simp

section \<open>Configuration is checked before the first request\<close>

lemma getenv_empty_iff: "dflt \<noteq> [] \<Longrightarrow> getenv env k dflt = [] \<longleftrightarrow> env k = Some []"
  by (simp add: getenv_def split: option.splits)

text \<open>
  An end-to-end run: with the three variables set, \<open>main\<close> issues the five board
  requests and one action request for each open card, and renders the dashboard over
  the open cards; the card whose action fetch failed has an empty action list.
\<close>

lemma main_team:
  "snd (main (Config source_literals [''TRELLO_API_KEY'' \<mapsto> ''k1'', ''TRELLO_TOKEN'' \<mapsto> ''t1'',
                                      ''TRELLO_BOARD_ID'' \<mapsto> ''b1'']) remote_team)
    = Dashboard (board_team\<lparr>td_cards := [card_done_twice, card_update_only, card_no_actions]\<rparr>)
   \<and> map url (fst (main (Config source_literals [''TRELLO_API_KEY'' \<mapsto> ''k1'',
          ''TRELLO_TOKEN'' \<mapsto> ''t1'', ''TRELLO_BOARD_ID'' \<mapsto> ''b1'']) remote_team))
      = [''https://api.trello.com/1/boards/b1'',
         ''https://api.trello.com/1/boards/b1/lists'',
         ''https://api.trello.com/1/boards/b1/members'',
         ''https://api.trello.com/1/boards/b1/cards'',
         ''https://api.trello.com/1/boards/b1/labels'',
         ''https://api.trello.com/1/cards/c2/actions'',
         ''https://api.trello.com/1/cards/c3/actions'',
         ''https://api.trello.com/1/cards/c4/actions'']"
  by code_simp

text \<open>
  The configuration values come from the environment: with non-empty literals as
  defaults, as in \<open>config.py\<close>, a value is empty exactly when its variable is set to
  the empty string, and a variable that is not set takes the literal.
\<close>

lemma is_configured_Config:
  assumes "api_key_literal lit \<noteq> []" and "token_literal lit \<noteq> []" and "board_id_literal lit \<noteq> []"
  shows "is_configured (Config lit env) \<longleftrightarrow>
           env ''TRELLO_API_KEY'' \<noteq> Some [] \<and> env ''TRELLO_TOKEN'' \<noteq> Some [] \<and>
           env ''TRELLO_BOARD_ID'' \<noteq> Some []"
  using assms by (simp add: is_configured_def Config_def getenv_empty_iff)

lemma main_unset_environment:
  "is_configured (Config source_literals Map.empty)
   \<and> map url (fst (main (Config source_literals Map.empty) remote_down))
       = [''https://api.trello.com/1/boards/BOARD-LITERAL'']
   \<and> map params (fst (main (Config source_literals Map.empty) remote_down))
       = [[(''key'', ''KEY-LITERAL''), (''token'', ''TOKEN-LITERAL''), (''fields'', ''name,desc,url'')]]"
  by (simp add: main_def is_configured_def Config_def getenv_def source_literals_def
      load_trello_data_def get_all_board_data_def get_board_info_def make_request_def
      TrelloAPI_def get_auth_params_def remote_down_def Let_def)

text \<open>
  Claim C9. When the API key, the token or the board identifier of the configuration
  is empty, the configuration does not count as complete, and \<open>main\<close> renders the
  configuration page and returns without having issued a request.
\<close>

theorem unconfigured_main_issues_no_request:
  assumes "TRELLO_API_KEY c = [] \<or> TRELLO_TOKEN c = [] \<or> TRELLO_BOARD_ID c = []"
  shows "\<not> is_configured c \<and> main c r = ([], ConfigPage)"
  using assms by (auto simp: main_def is_configured_def)

theorem unconfigured_main_issues_no_request_witness:
  "env_empty_token ''TRELLO_TOKEN'' = Some []
   \<and> TRELLO_TOKEN (Config source_literals env_empty_token) = []
   \<and> \<not> is_configured (Config source_literals env_empty_token)
   \<and> main (Config source_literals env_empty_token) remote_team = ([], ConfigPage)"
proof -
  have e: "env_empty_token ''TRELLO_TOKEN'' = Some []"
    by (simp add: env_empty_token_def)
  then have t: "TRELLO_TOKEN (Config source_literals env_empty_token) = []"
    by (simp add: Config_def getenv_def)
  from unconfigured_main_issues_no_request
    [of "Config source_literals env_empty_token" remote_team, OF disjI2 [OF disjI1 [OF t]]] e t
  show ?thesis by simp
qed

end
